theory Spec2Isabelle
  imports Complex_Main "HOL-Library.Sublist"
begin

section \<open>LankaWeather: the fetch orchestrator of \<^verbatim>\<open>src/app/index.tsx\<close> and its variants\<close>

text \<open>
  The repository holds three versions of one screen component \<^verbatim>\<open>WeatherApp\<close>:
  \<^verbatim>\<open>src/app/index.tsx\<close> (the main screen), \<^verbatim>\<open>src/app/(tabs)/index.tsx\<close> and
  \<^verbatim>\<open>src/unnamed/part_000\<close>. The model follows \<^verbatim>\<open>src/app/index.tsx\<close>; where the other two
  files differ in a way a property depends on, their function is modelled next to it under
  a suffixed name (\<open>_tabs\<close>, \<open>_part000\<close>).

  Strings are \<^typ>\<open>string\<close>: the UTF-8 bytes of the JavaScript string, as they stand in the
  source files. Equality of strings and the search for an ASCII substring are the same on
  the bytes as on the UTF-16 code units the engine holds.
\<close>

subsection \<open>Values of a response body\<close>

text \<open>
  \<^verbatim>\<open>axios\<close> hands the parsed body of a response over as \<^verbatim>\<open>response.data\<close>: any JSON value (a
  body that is not JSON arrives as a string). The TypeScript interfaces \<^verbatim>\<open>WeatherData\<close> and
  \<^verbatim>\<open>ForecastItem\<close> are erased at run time, so a body of any shape reaches the code.
  \<open>JObj\<close> lists the own properties of an object, each key once.
\<close>

datatype json =
    JNull
  | JBool bool
  | JNum rat
  | JStr string
  | JArr "json list"
  | JObj "(string \<times> json) list"

text \<open>The exceptions the modelled code raises or receives.\<close>

datatype exn =
    TypeError      \<comment> \<open>a property read on \<^verbatim>\<open>null\<close>/\<^verbatim>\<open>undefined\<close>, or a call of a non-function\<close>
  | RequestFailed  \<comment> \<open>the promise of \<^verbatim>\<open>axios.get\<close> rejected: network error or non-2xx status\<close>

text \<open>JavaScript truthiness of a body value (\<^verbatim>\<open>!weatherData\<close>, \<^verbatim>\<open>if (weatherData)\<close>).\<close>

fun truthy :: "json \<Rightarrow> bool" where
  "truthy JNull = False"
| "truthy (JBool b) = b"
| "truthy (JNum n) = (n \<noteq> 0)"
| "truthy (JStr s) = (s \<noteq> [])"
| "truthy (JArr _) = True"
| "truthy (JObj _) = True"

subsection \<open>The noon-sample filter\<close>

text \<open>
  \<^verbatim>\<open>String.prototype.includes(searchString)\<close>: does \<open>sub\<close> occur in \<open>s\<close> at some position?
\<close>

fun includes_js :: "string \<Rightarrow> string \<Rightarrow> bool" where
  "includes_js [] sub = (sub = [])"
| "includes_js (c # s) sub = (prefix sub (c # s) \<or> includes_js s sub)"

text \<open>
  The callback \<^verbatim>\<open>(item: ForecastItem) => item.dt_txt.includes("12:00:00")\<close> on a run-time
  value. \<^verbatim>\<open>item.dt_txt\<close> throws on \<^verbatim>\<open>null\<close> and is \<^verbatim>\<open>undefined\<close> on anything that has no own
  property \<^verbatim>\<open>dt_txt\<close>; \<^verbatim>\<open>.includes(...)\<close> is a method of strings and of arrays only (on an
  array it looks for an element equal to the argument), and calling it on anything else
  throws.
\<close>

fun noon_sample :: "json \<Rightarrow> exn + bool" where
  "noon_sample (JObj props) =
     (case map_of props ''dt_txt'' of
        Some (JStr s) \<Rightarrow> Inr (includes_js s ''12:00:00'')
      | Some (JArr vs) \<Rightarrow> Inr (JStr ''12:00:00'' \<in> set vs)
      | _ \<Rightarrow> Inl TypeError)"
| "noon_sample _ = Inl TypeError"

text \<open>
  \<^verbatim>\<open>Array.prototype.filter\<close> with a callback that may throw: elements are visited in order,
  the first exception ends the call, and the kept elements come out in their order.
\<close>

fun filter_js :: "('a \<Rightarrow> exn + bool) \<Rightarrow> 'a list \<Rightarrow> exn + 'a list" where
  "filter_js cb [] = Inr []"
| "filter_js cb (x # xs) =
     (case cb x of
        Inl e \<Rightarrow> Inl e
      | Inr keep \<Rightarrow>
          (case filter_js cb xs of
             Inl e \<Rightarrow> Inl e
           | Inr ys \<Rightarrow> Inr (if keep then x # ys else ys)))"

text \<open>
  \<^verbatim>\<open>list.filter((item: ForecastItem) => item.dt_txt.includes("12:00:00"))\<close> on the array.
\<close>

definition noon_filter :: "json list \<Rightarrow> exn + json list" where
  "noon_filter list = filter_js noon_sample list"

text \<open>
  \<^verbatim>\<open>const dailyForecasts = forecastResponse.data.list.filter(...)\<close> on the body \<open>data\<close>:
  \<^verbatim>\<open>data.list\<close> throws on \<^verbatim>\<open>null\<close>, and \<^verbatim>\<open>.filter\<close> is a function only when \<^verbatim>\<open>data.list\<close> is an
  array.
\<close>

fun dailyForecasts :: "json \<Rightarrow> exn + json list" where
  "dailyForecasts (JObj props) =
     (case map_of props ''list'' of
        Some (JArr list) \<Rightarrow> noon_filter list
      | _ \<Rightarrow> Inl TypeError)"
| "dailyForecasts _ = Inl TypeError"

text \<open>
  What the interface \<^verbatim>\<open>ForecastItem\<close> promises of an entry, as far as the filter reads it:
  an object whose \<^verbatim>\<open>dt_txt\<close> is a string; \<open>dt_txt\<close> reads that timestamp.
\<close>

fun is_ForecastItem :: "json \<Rightarrow> bool" where
  "is_ForecastItem (JObj props) =
     (case map_of props ''dt_txt'' of Some (JStr s) \<Rightarrow> True | _ \<Rightarrow> False)"
| "is_ForecastItem _ = False"

fun dt_txt :: "json \<Rightarrow> string" where
  "dt_txt (JObj props) = (case map_of props ''dt_txt'' of Some (JStr s) \<Rightarrow> s | _ \<Rightarrow> [])"
| "dt_txt _ = []"

text \<open>
  The timestamps the provider sends have the form \<^verbatim>\<open>YYYY-MM-DD HH:MM:SS\<close>; characters 11 to 18
  are the time of day.
\<close>

definition is_digit :: "char \<Rightarrow> bool" where
  "is_digit c = (c \<in> set ''0123456789'')"

fun provider_timestamp :: "string \<Rightarrow> bool" where
  "provider_timestamp [y1, y2, y3, y4, a, m1, m2, b, d1, d2, sp, h1, h2, c1, n1, n2, c2, s1, s2] =
     (list_all is_digit [y1, y2, y3, y4, m1, m2, d1, d2, h1, h2, n1, n2, s1, s2]
      \<and> a = CHR ''-'' \<and> b = CHR ''-'' \<and> sp = CHR '' '' \<and> c1 = CHR '':'' \<and> c2 = CHR '':'')"
| "provider_timestamp _ = False"

subsection \<open>Component state\<close>

text \<open>
  The \<^verbatim>\<open>useState\<close> cells of \<^verbatim>\<open>WeatherApp\<close>. \<^verbatim>\<open>null\<close> is \<open>JNull\<close> in the two data cells and
  \<open>None\<close> in \<^verbatim>\<open>error\<close>. \<^verbatim>\<open>currentCity\<close> exists in \<^verbatim>\<open>src/unnamed/part_000\<close> only, and
  \<^verbatim>\<open>refreshing\<close> does not exist in \<^verbatim>\<open>src/app/(tabs)/index.tsx\<close>; a file that lacks a cell
  neither reads nor writes it.
\<close>

record State =
  inputCity :: string
  currentCity :: json
  weatherData :: json
  forecastData :: json
  loading :: bool
  error :: "string option"
  refreshing :: bool

text \<open>The \<^verbatim>\<open>useState\<close> initial values.\<close>

definition initial_State :: State where
  "initial_State =
     \<lparr>inputCity = [], currentCity = JStr [], weatherData = JNull, forecastData = JNull,
      loading = True, error = None, refreshing = False\<rparr>"

text \<open>
  A run of the component: the current state, every state a setter call has produced so
  far (oldest first; what is on screen is always the view of one of them), and the
  \<^verbatim>\<open>axios.get\<close> calls issued so far, each with its URL and query parameters.
\<close>

record Run =
  state :: State
  trace :: "State list"
  calls :: "(string \<times> (string \<times> json) list) list"

definition initial_Run :: Run where
  "initial_Run = \<lparr>state = initial_State, trace = [], calls = []\<rparr>"

definition update :: "(State \<Rightarrow> State) \<Rightarrow> Run \<Rightarrow> Run" where
  "update f r = r\<lparr>state := f (state r), trace := trace r @ [f (state r)]\<rparr>"

definition setInputCity :: "string \<Rightarrow> Run \<Rightarrow> Run" where
  "setInputCity v = update (\<lambda>s. s\<lparr>inputCity := v\<rparr>)"

definition setCurrentCity :: "json \<Rightarrow> Run \<Rightarrow> Run" where
  "setCurrentCity v = update (\<lambda>s. s\<lparr>currentCity := v\<rparr>)"

definition setWeatherData :: "json \<Rightarrow> Run \<Rightarrow> Run" where
  "setWeatherData v = update (\<lambda>s. s\<lparr>weatherData := v\<rparr>)"

definition setForecastData :: "json \<Rightarrow> Run \<Rightarrow> Run" where
  "setForecastData v = update (\<lambda>s. s\<lparr>forecastData := v\<rparr>)"

definition setLoading :: "bool \<Rightarrow> Run \<Rightarrow> Run" where
  "setLoading v = update (\<lambda>s. s\<lparr>loading := v\<rparr>)"

definition setError :: "string option \<Rightarrow> Run \<Rightarrow> Run" where
  "setError v = update (\<lambda>s. s\<lparr>error := v\<rparr>)"

definition setRefreshing :: "bool \<Rightarrow> Run \<Rightarrow> Run" where
  "setRefreshing v = update (\<lambda>s. s\<lparr>refreshing := v\<rparr>)"

subsection \<open>The environment\<close>

text \<open>
  What the component is given from outside: the credential \<^verbatim>\<open>OPENWEATHER_API_KEY\<close> of
  \<^verbatim>\<open>@env\<close> (\<open>None\<close> when the variable is not defined), and for each awaited call the outcome
  it settles with: \<open>Inl\<close> a rejection, \<open>Inr\<close> the value. \<open>axios_get url params\<close> is the body
  \<^verbatim>\<open>response.data\<close> of \<^verbatim>\<open>axios.get(url, { params })\<close>; \<^verbatim>\<open>axios\<close> rejects on a network error and
  on a status outside 2xx. Every awaited call is taken to settle.
\<close>

record Env =
  API_KEY :: "string option"
  axios_get :: "string \<Rightarrow> (string \<times> json) list \<Rightarrow> exn + json"
  requestForegroundPermissionsAsync :: "exn + string"
  getCurrentPositionAsync :: "exn + rat \<times> rat"

definition WEATHER_API_URL :: string where
  "WEATHER_API_URL = ''https://api.openweathermap.org/data/2.5/weather''"

definition FORECAST_API_URL :: string where
  "FORECAST_API_URL = ''https://api.openweathermap.org/data/2.5/forecast''"

text \<open>\<^verbatim>\<open>!API_KEY\<close>: the credential is undefined or the empty string.\<close>

definition missing :: "string option \<Rightarrow> bool" where
  "missing key = (case key of None \<Rightarrow> True | Some k \<Rightarrow> k = [])"

text \<open>
  \<^verbatim>\<open>{ ...params, appid: API_KEY, units: 'metric' }\<close> as the query that is sent: a parameter
  whose value is \<^verbatim>\<open>undefined\<close> is left out of the query by \<^verbatim>\<open>axios\<close>.
\<close>

definition with_credential :: "string option \<Rightarrow> (string \<times> json) list \<Rightarrow> (string \<times> json) list" where
  "with_credential key params =
     params @ (case key of None \<Rightarrow> [] | Some k \<Rightarrow> [(''appid'', JStr k)]) @ [(''units'', JStr ''metric'')]"

text \<open>\<^verbatim>\<open>axios.get(url, { params })\<close> is called: the request is issued.\<close>

definition issue :: "string \<Rightarrow> (string \<times> json) list \<Rightarrow> Run \<Rightarrow> Run" where
  "issue url params r = r\<lparr>calls := calls r @ [(url, params)]\<rparr>"

subsection \<open>\<^verbatim>\<open>fetchData\<close> of \<^verbatim>\<open>src/app/index.tsx\<close>\<close>

text \<open>
  \<^verbatim>\<open>fetchData\<close> is an \<^verbatim>\<open>async\<close> function: it runs up to its first \<^verbatim>\<open>await\<close> inside the call, and
  the rest runs when the awaited request has settled. \<open>fetchData_start\<close> is the first part;
  its flag tells whether a request is now awaited (\<open>False\<close>: the function has returned).
  \<open>refreshing_seen\<close> is the value of \<^verbatim>\<open>refreshing\<close> in the closure of the \<^verbatim>\<open>fetchData\<close> that is
  called: the value of the render that created this \<^verbatim>\<open>fetchData\<close>.
\<close>

definition fetchData_start :: "Env \<Rightarrow> bool \<Rightarrow> (string \<times> json) list \<Rightarrow> Run \<Rightarrow> bool \<times> Run" where
  "fetchData_start env refreshing_seen params r =
     (if missing (API_KEY env) then
        (False,
         setLoading False
           (setError (Some ''API Key is missing. Please check your .env file and restart the app.'') r))
      else
        let r1 = (if \<not> refreshing_seen then setLoading True r else r);
            r2 = setError None r1
        in (True, issue WEATHER_API_URL (with_credential (API_KEY env) params) r2))"

text \<open>
  The rest of the \<^verbatim>\<open>try\<close> block, from the first \<^verbatim>\<open>await\<close> on: \<open>Some e\<close> when \<open>e\<close> was thrown,
  together with the run at that moment. (\<^verbatim>\<open>Animated.parallel(...).start()\<close> starts an animation
  and touches no state cell.)
\<close>

definition try_block :: "Env \<Rightarrow> (string \<times> json) list \<Rightarrow> Run \<Rightarrow> exn option \<times> Run" where
  "try_block env params r =
     (case axios_get env WEATHER_API_URL (with_credential (API_KEY env) params) of
        Inl e \<Rightarrow> (Some e, r)
      | Inr weather \<Rightarrow>
          let r1 = issue FORECAST_API_URL (with_credential (API_KEY env) params) r in
          (case axios_get env FORECAST_API_URL (with_credential (API_KEY env) params) of
             Inl e \<Rightarrow> (Some e, r1)
           | Inr forecast \<Rightarrow>
               let r2 = setWeatherData weather r1 in
               (case dailyForecasts forecast of
                  Inl e \<Rightarrow> (Some e, r2)
                | Inr daily \<Rightarrow> (None, setForecastData (JArr daily) r2))))"

text \<open>The \<^verbatim>\<open>catch (e)\<close> block.\<close>

definition catch_block :: "Run \<Rightarrow> Run" where
  "catch_block r =
     setForecastData JNull
       (setWeatherData JNull
          (setError (Some ''Could not find weather data. Please try another city.'') r))"

definition fetchData_settle :: "Env \<Rightarrow> (string \<times> json) list \<Rightarrow> Run \<Rightarrow> Run" where
  "fetchData_settle env params r =
     (let r1 = (case try_block env params r of
                  (Some e, r') \<Rightarrow> catch_block r'
                | (None, r') \<Rightarrow> r')
      in setRefreshing False (setLoading False r1))"

definition fetchData :: "Env \<Rightarrow> bool \<Rightarrow> (string \<times> json) list \<Rightarrow> Run \<Rightarrow> Run" where
  "fetchData env refreshing_seen params r =
     (case fetchData_start env refreshing_seen params r of
        (False, r') \<Rightarrow> r'
      | (True, r') \<Rightarrow> fetchData_settle env params r')"

subsection \<open>The location resolver and the handlers of \<^verbatim>\<open>src/app/index.tsx\<close>\<close>

text \<open>
  \<^verbatim>\<open>loadInitialWeather\<close> is memoised by \<^verbatim>\<open>useCallback(..., [])\<close>: it is the function of the first
  render for the life of the component, and the \<^verbatim>\<open>fetchData\<close> it calls is the one of the first
  render, in whose closure \<^verbatim>\<open>refreshing\<close> is the initial \<^verbatim>\<open>false\<close>. A rejection of one of the two
  awaited platform calls leaves the function before any effect (\<open>Inl\<close>).
\<close>

definition loadInitialWeather :: "Env \<Rightarrow> Run \<Rightarrow> exn + Run" where
  "loadInitialWeather env r =
     (case requestForegroundPermissionsAsync env of
        Inl e \<Rightarrow> Inl e
      | Inr status \<Rightarrow>
          if status \<noteq> ''granted'' then
            Inr (fetchData env False [(''q'', JStr ''Colombo'')]
                   (setError (Some ''Permission denied. Showing weather for Colombo.'') r))
          else
            (case getCurrentPositionAsync env of
               Inl e \<Rightarrow> Inl e
             | Inr (latitude, longitude) \<Rightarrow>
                 Inr (fetchData env False [(''lat'', JNum latitude), (''lon'', JNum longitude)] r)))"

text \<open>
  \<^verbatim>\<open>onRefresh\<close> (the \<^verbatim>\<open>setValue\<close> calls reset animation values, which are no state cells).
\<close>

definition onRefresh :: "Env \<Rightarrow> Run \<Rightarrow> exn + Run" where
  "onRefresh env r = loadInitialWeather env (setRefreshing True r)"

text \<open>
  \<^verbatim>\<open>String.prototype.trim\<close> removes white space and line terminators from both ends. These
  are their UTF-8 encodings: U+0009 to U+000D, U+0020, U+00A0, U+1680, U+2000 to U+200A,
  U+2028, U+2029, U+202F, U+205F, U+3000, U+FEFF.
\<close>

definition white_space :: "string list" where
  "white_space =
     [[CHR 0x09], [CHR 0x0A], [CHR 0x0B], [CHR 0x0C], [CHR 0x0D], [CHR 0x20],
      [CHR 0xC2, CHR 0xA0],
      [CHR 0xE1, CHR 0x9A, CHR 0x80],
      [CHR 0xE2, CHR 0x80, CHR 0x80], [CHR 0xE2, CHR 0x80, CHR 0x81],
      [CHR 0xE2, CHR 0x80, CHR 0x82], [CHR 0xE2, CHR 0x80, CHR 0x83],
      [CHR 0xE2, CHR 0x80, CHR 0x84], [CHR 0xE2, CHR 0x80, CHR 0x85],
      [CHR 0xE2, CHR 0x80, CHR 0x86], [CHR 0xE2, CHR 0x80, CHR 0x87],
      [CHR 0xE2, CHR 0x80, CHR 0x88], [CHR 0xE2, CHR 0x80, CHR 0x89],
      [CHR 0xE2, CHR 0x80, CHR 0x8A],
      [CHR 0xE2, CHR 0x80, CHR 0xA8], [CHR 0xE2, CHR 0x80, CHR 0xA9],
      [CHR 0xE2, CHR 0x80, CHR 0xAF],
      [CHR 0xE2, CHR 0x81, CHR 0x9F],
      [CHR 0xE3, CHR 0x80, CHR 0x80],
      [CHR 0xEF, CHR 0xBB, CHR 0xBF]]"

text \<open>
  \<open>strip ws s\<close> removes from the front of \<open>s\<close> every leading occurrence of a sequence in
  \<open>ws\<close>. The empty sequence is never looked for.
\<close>

function strip :: "string list \<Rightarrow> string \<Rightarrow> string" where
  "strip ws s =
     (case find (\<lambda>w. w \<noteq> [] \<and> prefix w s) ws of
        None \<Rightarrow> s
      | Some w \<Rightarrow> strip ws (drop (length w) s))"
  by pat_completeness auto
termination
proof (relation "measure (\<lambda>(ws, s). length s)")
  show "wf (measure (\<lambda>(ws, s). length s))" by simp
next
  fix ws :: "string list" and s w :: string
  assume "find (\<lambda>w. w \<noteq> [] \<and> prefix w s) ws = Some w"
  then have "w \<noteq> []" and "prefix w s"
    by (auto simp: find_Some_iff)
  then have "s \<noteq> []" by auto
  with \<open>w \<noteq> []\<close> show "((ws, drop (length w) s), (ws, s)) \<in> measure (\<lambda>(ws, s). length s)"
    by simp
qed

declare strip.simps [simp del]

definition trim_js :: "string \<Rightarrow> string" where
  "trim_js s = rev (strip (map rev white_space) (rev (strip white_space s)))"

text \<open>
  \<^verbatim>\<open>handleSearch\<close>, the handler of the search field and of the search button. It reads
  \<^verbatim>\<open>inputCity\<close> and calls the \<^verbatim>\<open>fetchData\<close> of the current render, so \<^verbatim>\<open>refreshing\<close> is seen as it
  is now. \<^verbatim>\<open>fetchData(...)\<close> returns at its first \<^verbatim>\<open>await\<close>; \<^verbatim>\<open>setInputCity('')\<close> runs next, and the
  rest of \<^verbatim>\<open>fetchData\<close> after it. (\<^verbatim>\<open>Keyboard.dismiss()\<close> and the \<^verbatim>\<open>setValue\<close> calls touch no
  state cell.)
\<close>

definition handleSearch :: "Env \<Rightarrow> Run \<Rightarrow> Run" where
  "handleSearch env r =
     (if trim_js (inputCity (state r)) \<noteq> [] then
        (case fetchData_start env (refreshing (state r))
                [(''q'', JStr (trim_js (inputCity (state r))))] r of
           (awaiting, r1) \<Rightarrow>
             let r2 = setInputCity [] r1
             in if awaiting
                then fetchData_settle env [(''q'', JStr (trim_js (inputCity (state r))))] r2
                else r2)
      else r)"

subsection \<open>What is shown\<close>

text \<open>
  \<^verbatim>\<open>renderContent\<close> chooses what the screen shows from the state: the activity indicator,
  the error text alone, the weather (with the error text as a banner when \<^verbatim>\<open>error\<close> is
  truthy), or nothing (\<^verbatim>\<open>return null\<close>). \<open>renderContent\<close> below is this choice of branch
  only. Building the weather view, and the component body on every render, read fields
  of \<^verbatim>\<open>weatherData\<close> and of the entries of \<^verbatim>\<open>forecastData\<close> and throw when one is missing;
  \<open>renderable\<close> further down says when they find every field they read.
\<close>

datatype ViewState =
    Loading
  | Failed string
  | Ready json json "string option"
  | Blank

definition truthy_message :: "string option \<Rightarrow> bool" where
  "truthy_message e = (case e of None \<Rightarrow> False | Some m \<Rightarrow> m \<noteq> [])"

definition renderContent :: "State \<Rightarrow> ViewState" where
  "renderContent s =
     (if loading s then Loading
      else if truthy_message (error s) \<and> \<not> truthy (weatherData s) then
        (case error s of Some m \<Rightarrow> Failed m | None \<Rightarrow> Blank)
      else if truthy (weatherData s) then
        Ready (weatherData s) (forecastData s)
          (if truthy_message (error s) then error s else None)
      else Blank)"

text \<open>
  \<^verbatim>\<open>weatherData.name\<close>, the text of the \<^verbatim>\<open>cityName\<close> line of the weather view: the own
  property \<^verbatim>\<open>name\<close> of an object; \<open>None\<close> is \<^verbatim>\<open>undefined\<close>, which is what a value without such
  a property gives; on \<^verbatim>\<open>null\<close> the read throws.
\<close>

fun cityName :: "json \<Rightarrow> exn + json option" where
  "cityName JNull = Inl TypeError"
| "cityName (JObj props) = Inr (map_of props ''name'')"
| "cityName _ = Inr None"

subsection \<open>\<^verbatim>\<open>fetchData\<close> of the other two files\<close>

text \<open>
  \<^verbatim>\<open>src/unnamed/part_000\<close>: no check of the credential; \<^verbatim>\<open>setCurrentCity(weatherResponse.data.name)\<close>
  follows \<^verbatim>\<open>setWeatherData\<close>, and the read of \<^verbatim>\<open>.name\<close> throws when the body is \<^verbatim>\<open>null\<close>. The \<^verbatim>\<open>catch\<close>
  block is the one of \<^verbatim>\<open>src/app/index.tsx\<close>. An \<^verbatim>\<open>undefined\<close> name is stored as \<open>JNull\<close>.
\<close>

definition try_block_part000 :: "Env \<Rightarrow> (string \<times> json) list \<Rightarrow> Run \<Rightarrow> exn option \<times> Run" where
  "try_block_part000 env params r =
     (case axios_get env WEATHER_API_URL (with_credential (API_KEY env) params) of
        Inl e \<Rightarrow> (Some e, r)
      | Inr weather \<Rightarrow>
          let r1 = issue FORECAST_API_URL (with_credential (API_KEY env) params) r in
          (case axios_get env FORECAST_API_URL (with_credential (API_KEY env) params) of
             Inl e \<Rightarrow> (Some e, r1)
           | Inr forecast \<Rightarrow>
               let r2 = setWeatherData weather r1 in
               (case cityName weather of
                  Inl e \<Rightarrow> (Some e, r2)
                | Inr name \<Rightarrow>
                    let r3 = setCurrentCity (case name of None \<Rightarrow> JNull | Some n \<Rightarrow> n) r2 in
                    (case dailyForecasts forecast of
                       Inl e \<Rightarrow> (Some e, r3)
                     | Inr daily \<Rightarrow> (None, setForecastData (JArr daily) r3)))))"

definition fetchData_part000 :: "Env \<Rightarrow> bool \<Rightarrow> (string \<times> json) list \<Rightarrow> Run \<Rightarrow> Run" where
  "fetchData_part000 env refreshing_seen params r =
     (let r1 = (if \<not> refreshing_seen then setLoading True r else r);
          r2 = setError None r1;
          r3 = issue WEATHER_API_URL (with_credential (API_KEY env) params) r2;
          r4 = (case try_block_part000 env params r3 of
                  (Some e, r') \<Rightarrow> catch_block r'
                | (None, r') \<Rightarrow> r')
      in setRefreshing False (setLoading False r4))"

text \<open>
  \<^verbatim>\<open>src/app/(tabs)/index.tsx\<close>: no check of the credential, which is a string literal of the
  file (here: the \<open>API_KEY\<close> of the environment); \<^verbatim>\<open>setLoading(true)\<close> is unconditional; the
  \<^verbatim>\<open>try\<close> block is the one of \<^verbatim>\<open>src/app/index.tsx\<close>; the \<^verbatim>\<open>catch\<close> block sets another message.
\<close>

definition catch_block_tabs :: "Run \<Rightarrow> Run" where
  "catch_block_tabs r =
     setForecastData JNull
       (setWeatherData JNull
          (setError
             (Some ''Could not find weather data. Please check the city name or your network connection.'')
             r))"

definition fetchData_tabs :: "Env \<Rightarrow> (string \<times> json) list \<Rightarrow> Run \<Rightarrow> Run" where
  "fetchData_tabs env params r =
     (let r1 = setLoading True r;
          r2 = setError None r1;
          r3 = issue WEATHER_API_URL (with_credential (API_KEY env) params) r2;
          r4 = (case try_block env params r3 of
                  (Some e, r') \<Rightarrow> catch_block_tabs r'
                | (None, r') \<Rightarrow> r')
      in setLoading False r4)"

subsection \<open>The lookup tables of \<^verbatim>\<open>src/app/index.tsx\<close>\<close>

text \<open>
  \<^verbatim>\<open>icons\<close> and \<^verbatim>\<open>gradients\<close> are object literals, read with a computed key: \<^verbatim>\<open>icons[iconCode]\<close>.
  Such a read finds an own property of the object, else a property of its prototype
  \<^verbatim>\<open>Object.prototype\<close>, else gives \<^verbatim>\<open>undefined\<close>.
\<close>

datatype 'a member =
    Own 'a              \<comment> \<open>the value of an own property\<close>
  | Inherited string    \<comment> \<open>the property of this name of \<^verbatim>\<open>Object.prototype\<close>\<close>
  | Undefined

text \<open>The property names of \<^verbatim>\<open>Object.prototype\<close>; each holds a function or an object.\<close>

definition Object_prototype :: "string list" where
  "Object_prototype =
     [''constructor'', ''hasOwnProperty'', ''isPrototypeOf'', ''propertyIsEnumerable'',
      ''toLocaleString'', ''toString'', ''valueOf'', ''__proto__'',
      ''__defineGetter__'', ''__defineSetter__'', ''__lookupGetter__'', ''__lookupSetter__'']"

definition property :: "(string \<times> 'a) list \<Rightarrow> string \<Rightarrow> 'a member" where
  "property literal key =
     (case map_of literal key of
        Some v \<Rightarrow> Own v
      | None \<Rightarrow> if key \<in> set Object_prototype then Inherited key else Undefined)"

text \<open>
  The glyphs are the UTF-8 bytes of the source: U+2600 U+FE0F for 01d; U+1F319 for 01n;
  U+26C5 for 02d; U+2601 U+FE0F for 02n, 03d, 03n, 04d, 04n; U+1F327 U+FE0F for 09d, 09n,
  10n; U+1F326 U+FE0F for 10d; U+26C8 U+FE0F for 11d, 11n; U+2744 U+FE0F for 13d, 13n;
  U+1F32B U+FE0F for 50d, 50n.
  The fallback is U+1F324 U+FE0F.
\<close>

definition icons :: "(string \<times> string) list" where
  "icons =
     [(''01d'', [CHR 0xE2, CHR 0x98, CHR 0x80, CHR 0xEF, CHR 0xB8, CHR 0x8F]),
      (''01n'', [CHR 0xF0, CHR 0x9F, CHR 0x8C, CHR 0x99]),
      (''02d'', [CHR 0xE2, CHR 0x9B, CHR 0x85]),
      (''02n'', [CHR 0xE2, CHR 0x98, CHR 0x81, CHR 0xEF, CHR 0xB8, CHR 0x8F]),
      (''03d'', [CHR 0xE2, CHR 0x98, CHR 0x81, CHR 0xEF, CHR 0xB8, CHR 0x8F]),
      (''03n'', [CHR 0xE2, CHR 0x98, CHR 0x81, CHR 0xEF, CHR 0xB8, CHR 0x8F]),
      (''04d'', [CHR 0xE2, CHR 0x98, CHR 0x81, CHR 0xEF, CHR 0xB8, CHR 0x8F]),
      (''04n'', [CHR 0xE2, CHR 0x98, CHR 0x81, CHR 0xEF, CHR 0xB8, CHR 0x8F]),
      (''09d'', [CHR 0xF0, CHR 0x9F, CHR 0x8C, CHR 0xA7, CHR 0xEF, CHR 0xB8, CHR 0x8F]),
      (''09n'', [CHR 0xF0, CHR 0x9F, CHR 0x8C, CHR 0xA7, CHR 0xEF, CHR 0xB8, CHR 0x8F]),
      (''10d'', [CHR 0xF0, CHR 0x9F, CHR 0x8C, CHR 0xA6, CHR 0xEF, CHR 0xB8, CHR 0x8F]),
      (''10n'', [CHR 0xF0, CHR 0x9F, CHR 0x8C, CHR 0xA7, CHR 0xEF, CHR 0xB8, CHR 0x8F]),
      (''11d'', [CHR 0xE2, CHR 0x9B, CHR 0x88, CHR 0xEF, CHR 0xB8, CHR 0x8F]),
      (''11n'', [CHR 0xE2, CHR 0x9B, CHR 0x88, CHR 0xEF, CHR 0xB8, CHR 0x8F]),
      (''13d'', [CHR 0xE2, CHR 0x9D, CHR 0x84, CHR 0xEF, CHR 0xB8, CHR 0x8F]),
      (''13n'', [CHR 0xE2, CHR 0x9D, CHR 0x84, CHR 0xEF, CHR 0xB8, CHR 0x8F]),
      (''50d'', [CHR 0xF0, CHR 0x9F, CHR 0x8C, CHR 0xAB, CHR 0xEF, CHR 0xB8, CHR 0x8F]),
      (''50n'', [CHR 0xF0, CHR 0x9F, CHR 0x8C, CHR 0xAB, CHR 0xEF, CHR 0xB8, CHR 0x8F])]"

text \<open>
  \<^verbatim>\<open>icons[iconCode] || fallback\<close>: the left operand when it is truthy (a non-empty string, a
  function, an object), the fallback otherwise.
\<close>

definition getWeatherIcon :: "string \<Rightarrow> string member" where
  "getWeatherIcon iconCode =
     (let fallback = [CHR 0xF0, CHR 0x9F, CHR 0x8C, CHR 0xA4, CHR 0xEF, CHR 0xB8, CHR 0x8F]
      in case property icons iconCode of
           Own glyph \<Rightarrow> if glyph \<noteq> [] then Own glyph else Own fallback
         | Inherited name \<Rightarrow> Inherited name
         | Undefined \<Rightarrow> Own fallback)"

record palette =
  day :: "string list"
  night :: "string list"

definition gradients :: "(string \<times> palette) list" where
  "gradients =
     [(''Clear'',
         \<lparr>day = [''#FF9A8B'', ''#A8E6CF'', ''#FFD3A5'', ''#FD9853''],
          night = [''#2C3E50'', ''#4A6741'', ''#34495E'', ''#2980B9'']\<rparr>),
      (''Clouds'',
         \<lparr>day = [''#BDC3C7'', ''#2C3E50'', ''#95A5A6'', ''#34495E''],
          night = [''#34495E'', ''#2C3E50'', ''#7F8C8D'', ''#2980B9'']\<rparr>),
      (''Rain'',
         \<lparr>day = [''#3A7BD5'', ''#00D2FF'', ''#667db6'', ''#0082c8''],
          night = [''#2980B9'', ''#6BB6FF'', ''#1B4F72'', ''#2E86AB'']\<rparr>),
      (''Drizzle'',
         \<lparr>day = [''#A8E6CF'', ''#DCEDC1'', ''#B2DFDB'', ''#80CBC4''],
          night = [''#34495E'', ''#2C3E50'', ''#5DADE2'', ''#3498DB'']\<rparr>),
      (''Thunderstorm'',
         \<lparr>day = [''#654EA3'', ''#EAAFC8'', ''#8E44AD'', ''#C39BD3''],
          night = [''#2C3E50'', ''#8E44AD'', ''#34495E'', ''#7D3C98'']\<rparr>),
      (''Snow'',
         \<lparr>day = [''#E6E6FA'', ''#FAFAFA'', ''#D6EAF8'', ''#EBF5FB''],
          night = [''#5DADE2'', ''#85C1E9'', ''#AED6F1'', ''#D6EAF8'']\<rparr>),
      (''Mist'',
         \<lparr>day = [''#D5D4D0'', ''#D5D4D0'', ''#EEEEEE'', ''#EFEEEE''],
          night = [''#7F8C8D'', ''#BDC3C7'', ''#95A5A6'', ''#AEB6BF'']\<rparr>)]"

text \<open>
  \<^verbatim>\<open>getAdvancedGradient\<close>: \<^verbatim>\<open>colors = gradients[weatherMain] || gradients['Clear']\<close>, then
  \<^verbatim>\<open>isNight ? colors.night : colors.day\<close>. A function or object inherited from the prototype
  is truthy and has neither property, so the result is \<^verbatim>\<open>undefined\<close>; on \<^verbatim>\<open>undefined\<close> the
  read of \<^verbatim>\<open>.night\<close> or \<^verbatim>\<open>.day\<close> throws.
\<close>

definition getAdvancedGradient :: "string \<Rightarrow> bool \<Rightarrow> exn + string list member" where
  "getAdvancedGradient weatherMain isNight =
     (let colors = (case property gradients weatherMain of
                      Undefined \<Rightarrow> property gradients ''Clear''
                    | found \<Rightarrow> found)
      in case colors of
           Own p \<Rightarrow> Inr (Own (if isNight then night p else day p))
         | Inherited name \<Rightarrow> Inr Undefined
         | Undefined \<Rightarrow> Inl TypeError)"

subsection \<open>What the screen reads\<close>

text \<open>
  The component body reads \<^verbatim>\<open>weatherData?.weather[0].main\<close> for the gradient and, in
  \<^verbatim>\<open>isNightTime\<close>, \<^verbatim>\<open>weatherData.sys.sunrise\<close> and \<^verbatim>\<open>.sunset\<close> on every render with truthy data.
  The weather view reads \<^verbatim>\<open>name\<close>, \<^verbatim>\<open>weather[0].icon\<close> and \<^verbatim>\<open>.description\<close>, \<^verbatim>\<open>main.temp\<close> and
  \<^verbatim>\<open>main.feels_like\<close> (both through \<^verbatim>\<open>toFixed\<close>), \<^verbatim>\<open>main.humidity\<close>, \<^verbatim>\<open>main.pressure\<close>, \<^verbatim>\<open>wind.speed\<close>,
  \<^verbatim>\<open>visibility\<close> and \<^verbatim>\<open>sys.sunrise\<close>; for each forecast entry it reads \<^verbatim>\<open>dt_txt\<close>,
  \<^verbatim>\<open>weather[0].icon\<close>, \<^verbatim>\<open>weather[0].main\<close> and \<^verbatim>\<open>main.temp\<close> (through \<^verbatim>\<open>toFixed\<close>). A read of a
  property of \<^verbatim>\<open>undefined\<close>, \<^verbatim>\<open>toFixed\<close> on a value that is no number, and an object or a
  function given to \<^verbatim>\<open>Text\<close> or to the gradient each throw. The predicates below ask for
  every one of these fields, with the type the interfaces \<^verbatim>\<open>WeatherData\<close> and
  \<^verbatim>\<open>ForecastItem\<close> declare, and for icon codes and categories on which the lookups give a
  glyph and a palette.
\<close>

fun field :: "string \<Rightarrow> json \<Rightarrow> json option" where
  "field k (JObj props) = map_of props k"
| "field k _ = None"

definition has_string :: "string \<Rightarrow> json \<Rightarrow> bool" where
  "has_string k j = (case field k j of Some (JStr s) \<Rightarrow> True | _ \<Rightarrow> False)"

definition has_number :: "string \<Rightarrow> json \<Rightarrow> bool" where
  "has_number k j = (case field k j of Some (JNum n) \<Rightarrow> True | _ \<Rightarrow> False)"

text \<open>\<^verbatim>\<open>.weather[0]\<close> of a body or of a forecast entry, when it is there.\<close>

definition first_weather :: "json \<Rightarrow> json option" where
  "first_weather j = (case field ''weather'' j of Some (JArr (w # ws)) \<Rightarrow> Some w | _ \<Rightarrow> None)"

text \<open>\<^verbatim>\<open>getWeatherIcon(w.icon)\<close> is a glyph: a string the \<^verbatim>\<open>Text\<close> element can show.\<close>

definition shows_icon :: "json \<Rightarrow> bool" where
  "shows_icon w =
     (case field ''icon'' w of
        Some (JStr code) \<Rightarrow> (case getWeatherIcon code of Own glyph \<Rightarrow> True | _ \<Rightarrow> False)
      | _ \<Rightarrow> False)"

text \<open>\<^verbatim>\<open>getAdvancedGradient(w.main, isNight)\<close> is a palette, by day and by night.\<close>

definition shows_gradient :: "json \<Rightarrow> bool" where
  "shows_gradient w =
     (case field ''main'' w of
        Some (JStr category) \<Rightarrow>
          (case getAdvancedGradient category False of Inr (Own colors) \<Rightarrow> True | _ \<Rightarrow> False)
          \<and> (case getAdvancedGradient category True of Inr (Own colors) \<Rightarrow> True | _ \<Rightarrow> False)
      | _ \<Rightarrow> False)"

definition is_WeatherData :: "json \<Rightarrow> bool" where
  "is_WeatherData body =
     (has_string ''name'' body
      \<and> (case field ''main'' body of
            Some m \<Rightarrow> has_number ''temp'' m \<and> has_number ''feels_like'' m
                      \<and> has_number ''humidity'' m \<and> has_number ''pressure'' m
          | None \<Rightarrow> False)
      \<and> (case first_weather body of
            Some w \<Rightarrow> shows_gradient w \<and> has_string ''description'' w \<and> shows_icon w
          | None \<Rightarrow> False)
      \<and> (case field ''wind'' body of Some wind \<Rightarrow> has_number ''speed'' wind | None \<Rightarrow> False)
      \<and> has_number ''visibility'' body
      \<and> (case field ''sys'' body of
            Some sys \<Rightarrow> has_number ''sunrise'' sys \<and> has_number ''sunset'' sys
          | None \<Rightarrow> False))"

definition is_shown_ForecastItem :: "json \<Rightarrow> bool" where
  "is_shown_ForecastItem item =
     (has_string ''dt_txt'' item
      \<and> (case field ''main'' item of Some m \<Rightarrow> has_number ''temp'' m | None \<Rightarrow> False)
      \<and> (case first_weather item of
            Some w \<Rightarrow> has_string ''main'' w \<and> shows_icon w
          | None \<Rightarrow> False))"

text \<open>A forecast body whose \<^verbatim>\<open>list\<close> is an array of such entries.\<close>

definition is_forecast_body :: "json \<Rightarrow> bool" where
  "is_forecast_body body =
     (case field ''list'' body of
        Some (JArr items) \<Rightarrow> list_all is_shown_ForecastItem items
      | _ \<Rightarrow> False)"

text \<open>
  A state the screen renders without throwing, whichever branch \<^verbatim>\<open>renderContent\<close> takes:
  the data cells are \<^verbatim>\<open>null\<close> or hold every field that is read.
\<close>

definition renderable :: "State \<Rightarrow> bool" where
  "renderable s =
     ((weatherData s = JNull \<or> is_WeatherData (weatherData s))
      \<and> (case forecastData s of
            JNull \<Rightarrow> True
          | JArr items \<Rightarrow> list_all is_shown_ForecastItem items
          | _ \<Rightarrow> False))"

subsection \<open>Views and reachable runs\<close>

text \<open>Which of the four branches of \<^verbatim>\<open>renderContent\<close> a view is.\<close>

datatype Phase = ShowsLoading | ShowsFailed | ShowsReady | ShowsBlank

fun phase :: "ViewState \<Rightarrow> Phase" where
  "phase Loading = ShowsLoading"
| "phase (Failed m) = ShowsFailed"
| "phase (Ready w f warning) = ShowsReady"
| "phase Blank = ShowsBlank"

text \<open>
  The runs the component can be in when every handler runs to its end before the next
  event: after mounting, the user types in the search field, submits a search or pulls
  to refresh, each with the credential \<open>key\<close> and whatever the network and the platform
  answer at that moment.
\<close>

inductive reachable :: "string option \<Rightarrow> Run \<Rightarrow> bool" for key :: "string option" where
  mounted: "reachable key initial_Run"
| loaded: "reachable key r \<Longrightarrow> API_KEY env = key \<Longrightarrow> loadInitialWeather env r = Inr r'
     \<Longrightarrow> reachable key r'"
| typed: "reachable key r \<Longrightarrow> reachable key (setInputCity v r)"
| searched: "reachable key r \<Longrightarrow> API_KEY env = key \<Longrightarrow> reachable key (handleSearch env r)"
| refreshed: "reachable key r \<Longrightarrow> API_KEY env = key \<Longrightarrow> onRefresh env r = Inr r'
     \<Longrightarrow> reachable key r'"

subsection \<open>Outcomes of an attempt\<close>

text \<open>
  The words of the properties below. A call fails when its promise rejects; a forecast
  body cannot be filtered when \<^verbatim>\<open>forecastResponse.data.list.filter(...)\<close> throws on it.
\<close>

definition rejects :: "Env \<Rightarrow> string \<Rightarrow> (string \<times> json) list \<Rightarrow> bool" where
  "rejects env url params =
     (case axios_get env url (with_credential (API_KEY env) params) of
        Inl e \<Rightarrow> True
      | Inr body \<Rightarrow> False)"

definition unfilterable :: "Env \<Rightarrow> (string \<times> json) list \<Rightarrow> bool" where
  "unfilterable env params =
     (case axios_get env FORECAST_API_URL (with_credential (API_KEY env) params) of
        Inl e \<Rightarrow> False
      | Inr body \<Rightarrow> (case dailyForecasts body of Inl e \<Rightarrow> True | Inr daily \<Rightarrow> False))"

text \<open>
  Every body the provider sends for a current-conditions request is truthy (an object,
  as the interface \<^verbatim>\<open>WeatherData\<close> has it).
\<close>

definition truthy_bodies :: "Env \<Rightarrow> bool" where
  "truthy_bodies env =
     (\<forall>params body. axios_get env WEATHER_API_URL params = Inr body \<longrightarrow> truthy body)"

text \<open>
  Every body the provider sends is well formed: a current-conditions body is a
  \<^verbatim>\<open>WeatherData\<close>, a forecast body holds a list of \<^verbatim>\<open>ForecastItem\<close>s, as far as the screen
  reads them.
\<close>

definition well_formed_bodies :: "Env \<Rightarrow> bool" where
  "well_formed_bodies env =
     ((\<forall>params body. axios_get env WEATHER_API_URL params = Inr body \<longrightarrow> is_WeatherData body)
      \<and> (\<forall>params body. axios_get env FORECAST_API_URL params = Inr body \<longrightarrow> is_forecast_body body))"

text \<open>The state a failed attempt leaves: the message set, both data cells cleared.\<close>

definition cleared_with :: "string \<Rightarrow> State \<Rightarrow> bool" where
  "cleared_with m s =
     (error s = Some m \<and> weatherData s = JNull \<and> forecastData s = JNull \<and> \<not> loading s)"

text \<open>
  The branches of \<^verbatim>\<open>renderContent\<close> the screen goes through from run \<open>r\<close> to a later run
  \<open>r'\<close>: the branch shown in \<open>r\<close>, then the branch of every state produced since; a branch
  that lasts over several states is named once.
\<close>

definition views_since :: "Run \<Rightarrow> Run \<Rightarrow> Phase list" where
  "views_since r r' =
     remdups_adj (map (\<lambda>s. phase (renderContent s)) (state r # drop (length (trace r)) (trace r')))"

subsection \<open>Sample environments\<close>

text \<open>
  Bodies as the provider sends them, with every field the screen reads, and environments
  built from them; the concrete inputs of the properties below.
\<close>

definition colombo_weather :: json where
  "colombo_weather =
     JObj [(''name'', JStr ''Colombo''),
           (''main'', JObj [(''temp'', JNum (142 / 5)), (''feels_like'', JNum (163 / 5)),
                            (''humidity'', JNum 78), (''pressure'', JNum 1010)]),
           (''weather'', JArr [JObj [(''main'', JStr ''Clouds''),
                                     (''description'', JStr ''broken clouds''),
                                     (''icon'', JStr ''04d'')]]),
           (''wind'', JObj [(''speed'', JNum (18 / 5))]),
           (''visibility'', JNum 10000),
           (''sys'', JObj [(''sunrise'', JNum 1714523400), (''sunset'', JNum 1714568100)])]"

definition forecast_item :: "string \<Rightarrow> json" where
  "forecast_item t =
     JObj [(''dt_txt'', JStr t),
           (''main'', JObj [(''temp'', JNum 29)]),
           (''weather'', JArr [JObj [(''main'', JStr ''Clouds''), (''icon'', JStr ''04d'')]])]"

definition colombo_forecast :: json where
  "colombo_forecast =
     JObj [(''cod'', JStr ''200''),
           (''list'', JArr [forecast_item ''2024-05-01 09:00:00'',
                           forecast_item ''2024-05-01 12:00:00'',
                           forecast_item ''2024-05-01 15:00:00'',
                           forecast_item ''2024-05-02 12:00:00''])]"

text \<open>A provider that answers both endpoints, whatever the query.\<close>

definition provider :: "string \<Rightarrow> (string \<times> json) list \<Rightarrow> exn + json" where
  "provider url params =
     (if url = WEATHER_API_URL then Inr colombo_weather
      else if url = FORECAST_API_URL then Inr colombo_forecast
      else Inl RequestFailed)"

text \<open>No network: every request is rejected.\<close>

definition offline :: "string \<Rightarrow> (string \<times> json) list \<Rightarrow> exn + json" where
  "offline url params = Inl RequestFailed"


text \<open>A device with this credential, network and permission status, located in Colombo.\<close>

definition device :: "string option \<Rightarrow> (string \<Rightarrow> (string \<times> json) list \<Rightarrow> exn + json) \<Rightarrow> string \<Rightarrow> Env" where
  "device key network status =
     \<lparr>API_KEY = key, axios_get = network,
      requestForegroundPermissionsAsync = Inr status,
      getCurrentPositionAsync = Inr (6927 / 1000, 79861 / 1000)\<rparr>"

text \<open>
  The run after mounting on a device with permission granted, with \<^verbatim>\<open>Kandy\<close> typed into the
  search field since: with a credential (the screen shows the weather) and without one
  (the screen shows the message about the API key).
\<close>

definition ready_run :: Run where
  "ready_run =
     setInputCity ''Kandy''
       (fetchData (device (Some ''key'') provider ''granted'') False
          [(''lat'', JNum (6927 / 1000)), (''lon'', JNum (79861 / 1000))] initial_Run)"

definition no_key_run :: Run where
  "no_key_run =
     setInputCity ''Kandy''
       (fetchData (device None provider ''granted'') False
          [(''lat'', JNum (6927 / 1000)), (''lon'', JNum (79861 / 1000))] initial_Run)"

section \<open>Properties\<close>

subsection \<open>Setters and requests\<close>

lemma state_update [simp]: "state (update f r) = f (state r)"
  and trace_update [simp]: "trace (update f r) = trace r @ [f (state r)]"
  and calls_update [simp]: "calls (update f r) = calls r"
  by (simp_all add: update_def)

lemma state_issue [simp]: "state (issue url q r) = state r"
  and trace_issue [simp]: "trace (issue url q r) = trace r"
  and calls_issue [simp]: "calls (issue url q r) = calls r @ [(url, q)]"
  by (simp_all add: issue_def)

lemmas setters = setInputCity_def setCurrentCity_def setWeatherData_def setForecastData_def
  setLoading_def setError_def setRefreshing_def

subsection \<open>Without a credential\<close>

lemma fetchData_missing:
  "missing (API_KEY env) \<Longrightarrow>
   fetchData env seen params r =
     setLoading False
       (setError (Some ''API Key is missing. Please check your .env file and restart the app.'') r)"
  by (simp add: fetchData_def fetchData_start_def)

text \<open>Without a credential no run ever holds weather data.\<close>

lemma reachable_no_data:
  assumes "reachable key r" and "missing key"
  shows "weatherData (state r) = JNull"
  using assms
proof (induction rule: reachable.induct)
  case mounted
  then show ?case by (simp add: initial_Run_def initial_State_def)
next
  case (loaded r env r')
  then show ?case
    by (auto simp: loadInitialWeather_def fetchData_missing setters
        split: sum.splits if_splits prod.splits)
next
  case (typed r v)
  then show ?case by (simp add: setters)
next
  case (searched r env)
  then show ?case
    by (auto simp: handleSearch_def fetchData_start_def setters)
next
  case (refreshed r env r')
  then show ?case
    by (auto simp: onRefresh_def loadInitialWeather_def fetchData_missing setters
        split: sum.splits if_splits prod.splits)
qed

subsection \<open>The substring test\<close>

lemma includes_iff_sublist: "includes_js s sub \<longleftrightarrow> sublist sub s"
  by (induction s) (auto simp: sublist_Cons_right)

lemma includes_iff_decomposition: "includes_js s sub \<longleftrightarrow> (\<exists>before after. s = before @ sub @ after)"
  by (simp add: includes_iff_sublist sublist_def)

subsection \<open>The filter\<close>

lemma filter_js_total:
  "(\<And>x. x \<in> set xs \<Longrightarrow> cb x = Inr (p x)) \<Longrightarrow> filter_js cb xs = Inr (filter p xs)"
  by (induction xs) auto

lemma filter_js_result:
  "filter_js cb xs = Inr ys \<Longrightarrow> ys = filter (\<lambda>x. cb x = Inr True) xs \<and> (\<forall>x \<in> set xs. \<exists>b. cb x = Inr b)"
proof (induction xs arbitrary: ys)
  case Nil
  then show ?case by simp
next
  case (Cons x xs)
  then show ?case
    by (auto split: sum.splits if_splits)
qed

lemma noon_sample_typed:
  "is_ForecastItem item \<Longrightarrow> noon_sample item = Inr (sublist ''12:00:00'' (dt_txt item))"
  by (cases item) (auto simp: includes_iff_sublist split: option.splits json.splits)

text \<open>
  On a timestamp of the provider's form, containing \<^verbatim>\<open>12:00:00\<close> is the same as having
  \<^verbatim>\<open>12:00:00\<close> for the time of day: the colons leave the match one place only.
\<close>

lemma includes_skip:
  "c \<noteq> CHR '':'' \<Longrightarrow>
   includes_js (a # b # c # s) ''12:00:00'' = includes_js (b # c # s) ''12:00:00''"
  by auto

lemma digit_no_colon: "is_digit c \<Longrightarrow> c \<noteq> CHR '':''"
  by (auto simp: is_digit_def)

lemma includes_eight:
  "includes_js [h1, h2, c1, n1, n2, c2, s1, s2] ''12:00:00''
     \<longleftrightarrow> [h1, h2, c1, n1, n2, c2, s1, s2] = ''12:00:00''"
  by auto

lemma noon_iff_time_of_day:
  assumes "provider_timestamp t"
  shows "includes_js t ''12:00:00'' \<longleftrightarrow> drop 11 t = ''12:00:00''"
  using assms
proof (cases t rule: provider_timestamp.cases)
  case (1 y1 y2 y3 y4 a m1 m2 b d1 d2 sp h1 h2 c1 n1 n2 c2 s1 s2)
  with assms have d: "y3 \<noteq> CHR '':''" "y4 \<noteq> CHR '':''" "a \<noteq> CHR '':''" "m1 \<noteq> CHR '':''"
    "m2 \<noteq> CHR '':''" "b \<noteq> CHR '':''" "d1 \<noteq> CHR '':''" "d2 \<noteq> CHR '':''" "sp \<noteq> CHR '':''"
    "h1 \<noteq> CHR '':''" "h2 \<noteq> CHR '':''"
    by (auto simp: digit_no_colon)
  have "includes_js t ''12:00:00'' = includes_js [h1, h2, c1, n1, n2, c2, s1, s2] ''12:00:00''"
    unfolding 1 by (simp add: includes_skip d del: includes_js.simps)
  also have "\<dots> \<longleftrightarrow> [h1, h2, c1, n1, n2, c2, s1, s2] = ''12:00:00''"
    by (rule includes_eight)
  finally show ?thesis by (simp add: 1)
qed (use assms in simp_all)

text \<open>
  C1. For a forecast body whose \<^verbatim>\<open>list\<close> is a feed of \<^verbatim>\<open>ForecastItem\<close>s, the noon-sample step
  returns normally, and the daily sequence is the feed with exactly the entries kept
  whose timestamp contains \<^verbatim>\<open>12:00:00\<close>: each such entry as often as it occurs in the feed,
  in the feed's order, and nothing else; so it is a subsequence of the feed.
\<close>

theorem dailyForecasts_exact:
  assumes "map_of props ''list'' = Some (JArr feed)" and "list_all is_ForecastItem feed"
  shows "dailyForecasts (JObj props)
           = Inr (filter (\<lambda>item. sublist ''12:00:00'' (dt_txt item)) feed)
       \<and> subseq (filter (\<lambda>item. sublist ''12:00:00'' (dt_txt item)) feed) feed"
proof -
  have "\<And>item. item \<in> set feed \<Longrightarrow> noon_sample item = Inr (sublist ''12:00:00'' (dt_txt item))"
    using assms(2) by (simp add: list_all_iff noon_sample_typed)
  then have "noon_filter feed = Inr (filter (\<lambda>item. sublist ''12:00:00'' (dt_txt item)) feed)"
    unfolding noon_filter_def by (rule filter_js_total)
  with assms(1) show ?thesis by simp
qed

theorem dailyForecasts_exact_witness:
  "map_of [(''cod'', JStr ''200''),
           (''list'', JArr [forecast_item ''2024-05-01 09:00:00'',
                           forecast_item ''2024-05-01 12:00:00'',
                           forecast_item ''2024-05-01 15:00:00'',
                           forecast_item ''2024-05-02 12:00:00''])] ''list''
     = Some (JArr [forecast_item ''2024-05-01 09:00:00'',
                   forecast_item ''2024-05-01 12:00:00'',
                   forecast_item ''2024-05-01 15:00:00'',
                   forecast_item ''2024-05-02 12:00:00''])
   \<and> list_all is_ForecastItem
         [forecast_item ''2024-05-01 09:00:00'',
          forecast_item ''2024-05-01 12:00:00'',
          forecast_item ''2024-05-01 15:00:00'',
          forecast_item ''2024-05-02 12:00:00'']
   \<and> dailyForecasts colombo_forecast
     = Inr [forecast_item ''2024-05-01 12:00:00'', forecast_item ''2024-05-02 12:00:00'']"
proof -
  let ?feed = "[forecast_item ''2024-05-01 09:00:00'',
          forecast_item ''2024-05-01 12:00:00'',
          forecast_item ''2024-05-01 15:00:00'',
          forecast_item ''2024-05-02 12:00:00'']"
  let ?props = "[(''cod'', JStr ''200''), (''list'', JArr ?feed)]"
  have body: "map_of ?props ''list'' = Some (JArr ?feed)" by simp
  have typed: "list_all is_ForecastItem ?feed" by (simp add: forecast_item_def)
  have "filter (\<lambda>item. sublist ''12:00:00'' (dt_txt item)) ?feed
      = [forecast_item ''2024-05-01 12:00:00'', forecast_item ''2024-05-02 12:00:00'']"
    by (simp add: forecast_item_def includes_iff_sublist [symmetric])
  with body typed dailyForecasts_exact [OF body typed] show ?thesis
    by (simp add: colombo_forecast_def)
qed

text \<open>
  C10. The noon-sample filter is idempotent: whenever it returns a list, filtering that
  list again returns it unchanged.
\<close>

theorem noon_filter_idempotent:
  assumes "noon_filter list = Inr daily"
  shows "noon_filter daily = Inr daily"
proof -
  from assms have daily: "daily = filter (\<lambda>x. noon_sample x = Inr True) list"
    unfolding noon_filter_def by (simp add: filter_js_result)
  then have "\<And>x. x \<in> set daily \<Longrightarrow> noon_sample x = Inr ((\<lambda>_. True) x)"
    by simp
  then have "filter_js noon_sample daily = Inr (filter (\<lambda>_. True) daily)"
    by (rule filter_js_total)
  then show ?thesis by (simp add: noon_filter_def)
qed

theorem noon_filter_idempotent_witness:
  "noon_filter
     [JObj [(''dt_txt'', JStr ''2024-05-01 09:00:00'')],
      JObj [(''dt_txt'', JStr ''2024-05-01 12:00:00'')]]
   = Inr [JObj [(''dt_txt'', JStr ''2024-05-01 12:00:00'')]]
   \<and> noon_filter [JObj [(''dt_txt'', JStr ''2024-05-01 12:00:00'')]]
   = Inr [JObj [(''dt_txt'', JStr ''2024-05-01 12:00:00'')]]"
proof -
  have first: "noon_filter
     [JObj [(''dt_txt'', JStr ''2024-05-01 09:00:00'')],
      JObj [(''dt_txt'', JStr ''2024-05-01 12:00:00'')]]
   = Inr [JObj [(''dt_txt'', JStr ''2024-05-01 12:00:00'')]]"
    by (simp add: noon_filter_def)
  from first noon_filter_idempotent [OF first] show ?thesis by simp
qed

subsection \<open>Searching\<close>

text \<open>
  C9. Submitting a search while the text of the search field trims to the empty string
  changes nothing: no setter is called and no request is issued, so the state (weather
  data, forecast data, error, loading flag, the input text), the trace and the list of
  requests are as before.
\<close>

theorem handleSearch_blank:
  "trim_js (inputCity (state r)) = [] \<Longrightarrow> handleSearch env r = r"
  by (simp add: handleSearch_def)

theorem handleSearch_blank_witness:
  "trim_js (inputCity (state (setInputCity [CHR 0x20, CHR 0x09, CHR 0xC2, CHR 0xA0] initial_Run))) = []
   \<and> handleSearch (device (Some ''key'') provider ''granted'')
        (setInputCity [CHR 0x20, CHR 0x09, CHR 0xC2, CHR 0xA0] initial_Run)
     = setInputCity [CHR 0x20, CHR 0x09, CHR 0xC2, CHR 0xA0] initial_Run"
proof -
  have blank:
    "trim_js (inputCity (state (setInputCity [CHR 0x20, CHR 0x09, CHR 0xC2, CHR 0xA0] initial_Run))) = []"
    unfolding setters state_update by code_simp
  from blank handleSearch_blank [OF blank] show ?thesis by simp
qed

subsection \<open>The credential guard\<close>

text \<open>
  C3. When the credential is undefined or empty, \<^verbatim>\<open>fetchData\<close> of \<^verbatim>\<open>src/app/index.tsx\<close>, called
  in any reachable run with any query, issues no request and leaves the screen in the
  Failed state with the message about the missing API key.
\<close>

theorem missing_credential:
  assumes "missing (API_KEY env)" and "reachable (API_KEY env) r"
  shows "calls (fetchData env seen params r) = calls r
       \<and> renderContent (state (fetchData env seen params r))
           = Failed ''API Key is missing. Please check your .env file and restart the app.''"
proof -
  have "weatherData (state r) = JNull"
    using assms reachable_no_data by blast
  then show ?thesis
    using assms(1) by (simp add: fetchData_missing setters renderContent_def truthy_message_def)
qed

theorem missing_credential_witness:
  "missing (API_KEY (device None provider ''granted''))
   \<and> reachable (API_KEY (device None provider ''granted'')) initial_Run
   \<and> calls (fetchData (device None provider ''granted'') False [(''q'', JStr ''Kandy'')] initial_Run) = []
   \<and> renderContent
        (state (fetchData (device None provider ''granted'') False [(''q'', JStr ''Kandy'')] initial_Run))
       = Failed ''API Key is missing. Please check your .env file and restart the app.''"
proof -
  have m: "missing (API_KEY (device None provider ''granted''))"
    by (simp add: device_def missing_def)
  have re: "reachable (API_KEY (device None provider ''granted'')) initial_Run"
    by (rule reachable.mounted)
  from missing_credential [OF m re, of False "[(''q'', JStr ''Kandy'')]"] m re
  show ?thesis by (simp add: initial_Run_def)
qed

subsection \<open>A failed call\<close>

lemma cleared_with_Failed: "m \<noteq> [] \<Longrightarrow> cleared_with m s \<Longrightarrow> renderContent s = Failed m"
  by (simp add: cleared_with_def renderContent_def truthy_message_def)

lemma try_block_throws:
  "rejects env WEATHER_API_URL params \<or> rejects env FORECAST_API_URL params \<or> unfilterable env params
   \<Longrightarrow> \<exists>e r'. try_block env params r = (Some e, r')"
  by (auto simp: try_block_def rejects_def unfilterable_def Let_def split: sum.splits)

lemma try_block_part000_throws:
  "rejects env WEATHER_API_URL params \<or> rejects env FORECAST_API_URL params \<or> unfilterable env params
   \<Longrightarrow> \<exists>e r'. try_block_part000 env params r = (Some e, r')"
  by (auto simp: try_block_part000_def rejects_def unfilterable_def Let_def split: sum.splits)

lemma catch_block_cleared:
  "cleared_with ''Could not find weather data. Please try another city.''
     (state (setRefreshing b (setLoading False (catch_block r))))"
  by (simp add: cleared_with_def catch_block_def setters)

text \<open>
  C2, as the code has it. When the current-conditions call or the forecast call rejects,
  or the forecast body cannot be filtered, the attempt ends in the Failed state with
  both data cells cleared, in each of the three files; \<^verbatim>\<open>src/app/index.tsx\<close> makes the
  calls only with a credential. The message is the one of the file's \<^verbatim>\<open>catch\<close> block:
  \<^verbatim>\<open>src/app/index.tsx\<close> and \<^verbatim>\<open>src/unnamed/part_000\<close> say "Please try another city.",
  \<^verbatim>\<open>src/app/(tabs)/index.tsx\<close> says "Please check the city name or your network
  connection.".
\<close>

theorem failed_call_clears:
  assumes "rejects env WEATHER_API_URL params \<or> rejects env FORECAST_API_URL params \<or> unfilterable env params"
  shows "(\<not> missing (API_KEY env) \<longrightarrow>
            cleared_with ''Could not find weather data. Please try another city.''
              (state (fetchData env seen params r))
          \<and> renderContent (state (fetchData env seen params r))
              = Failed ''Could not find weather data. Please try another city.'')
       \<and> cleared_with ''Could not find weather data. Please try another city.''
              (state (fetchData_part000 env seen params r))
       \<and> renderContent (state (fetchData_part000 env seen params r))
              = Failed ''Could not find weather data. Please try another city.''
       \<and> cleared_with
              ''Could not find weather data. Please check the city name or your network connection.''
              (state (fetchData_tabs env params r))
       \<and> renderContent (state (fetchData_tabs env params r))
              = Failed ''Could not find weather data. Please check the city name or your network connection.''"
proof -
  have main: "cleared_with ''Could not find weather data. Please try another city.''
              (state (fetchData env seen params r))" if "\<not> missing (API_KEY env)"
  proof -
    obtain e r' where "try_block env params (snd (fetchData_start env seen params r)) = (Some e, r')"
      using try_block_throws [OF assms] by blast
    with that show ?thesis
      by (simp add: fetchData_def fetchData_start_def fetchData_settle_def Let_def catch_block_cleared)
  qed
  have part: "cleared_with ''Could not find weather data. Please try another city.''
              (state (fetchData_part000 env seen params r))"
  proof -
    obtain e r' where "try_block_part000 env params (issue WEATHER_API_URL (with_credential (API_KEY env) params)
       (setError None (if \<not> seen then setLoading True r else r))) = (Some e, r')"
      using try_block_part000_throws [OF assms] by blast
    then show ?thesis
      by (simp add: fetchData_part000_def Let_def catch_block_cleared)
  qed
  have tabs: "cleared_with ''Could not find weather data. Please check the city name or your network connection.''
              (state (fetchData_tabs env params r))"
  proof -
    obtain e r' where "try_block env params (issue WEATHER_API_URL (with_credential (API_KEY env) params)
       (setError None (setLoading True r))) = (Some e, r')"
      using try_block_throws [OF assms] by blast
    then show ?thesis
      by (simp add: fetchData_tabs_def Let_def catch_block_tabs_def cleared_with_def setters)
  qed
  from main part tabs show ?thesis
    by (simp add: cleared_with_Failed)
qed


theorem failed_call_clears_witness:
  "rejects (device (Some ''key'') offline ''granted'') WEATHER_API_URL [(''q'', JStr ''Atlantis'')]
   \<and> \<not> missing (API_KEY (device (Some ''key'') offline ''granted''))
   \<and> renderContent (state (fetchData (device (Some ''key'') offline ''granted'') False
         [(''q'', JStr ''Atlantis'')] initial_Run))
       = Failed ''Could not find weather data. Please try another city.''
   \<and> renderContent (state (fetchData_part000 (device (Some ''key'') offline ''granted'') False
         [(''q'', JStr ''Atlantis'')] initial_Run))
       = Failed ''Could not find weather data. Please try another city.''
   \<and> renderContent (state (fetchData_tabs (device (Some ''key'') offline ''granted'')
         [(''q'', JStr ''Atlantis'')] initial_Run))
       = Failed ''Could not find weather data. Please check the city name or your network connection.''"
proof -
  have fails: "rejects (device (Some ''key'') offline ''granted'') WEATHER_API_URL [(''q'', JStr ''Atlantis'')]"
    by (simp add: rejects_def device_def offline_def)
  then have "rejects (device (Some ''key'') offline ''granted'') WEATHER_API_URL [(''q'', JStr ''Atlantis'')]
     \<or> rejects (device (Some ''key'') offline ''granted'') FORECAST_API_URL [(''q'', JStr ''Atlantis'')]
     \<or> unfilterable (device (Some ''key'') offline ''granted'') [(''q'', JStr ''Atlantis'')]"
    by simp
  from failed_call_clears [OF this, of False initial_Run] fails
  show ?thesis by (simp add: device_def missing_def)
qed

text \<open>
  C2 as stated fails in \<^verbatim>\<open>src/app/(tabs)/index.tsx\<close>: with the network down, the message of
  the Failed state is not "Could not find weather data. Please try another city.".
\<close>

theorem tabs_failure_message:
  "rejects (device (Some ''key'') offline ''granted'') WEATHER_API_URL [(''q'', JStr ''Atlantis'')]
   \<and> renderContent (state (fetchData_tabs (device (Some ''key'') offline ''granted'')
         [(''q'', JStr ''Atlantis'')] initial_Run))
       \<noteq> Failed ''Could not find weather data. Please try another city.''"
  by (simp add: rejects_def device_def offline_def fetchData_tabs_def try_block_def
      catch_block_tabs_def setters renderContent_def truthy_message_def initial_Run_def)

subsection \<open>A successful attempt\<close>

lemma try_block_cases:
  "try_block env params r = (None, r') \<Longrightarrow>
   \<exists>weather forecast daily.
     axios_get env WEATHER_API_URL (with_credential (API_KEY env) params) = Inr weather
   \<and> axios_get env FORECAST_API_URL (with_credential (API_KEY env) params) = Inr forecast
   \<and> dailyForecasts forecast = Inr daily
   \<and> r' = setForecastData (JArr daily) (setWeatherData weather
             (issue FORECAST_API_URL (with_credential (API_KEY env) params) r))"
  by (auto simp: try_block_def Let_def split: sum.splits)

lemma settle_state:
  "state (fetchData_settle env params r) =
     (case try_block env params r of
        (Some e, r') \<Rightarrow> (state r')\<lparr>error := Some ''Could not find weather data. Please try another city.'',
             weatherData := JNull, forecastData := JNull, loading := False, refreshing := False\<rparr>
      | (None, r') \<Rightarrow> (state r')\<lparr>loading := False, refreshing := False\<rparr>)"
  by (simp add: fetchData_settle_def Let_def catch_block_def setters split: prod.splits option.splits)

text \<open>
  C8. When a search with a credential ends in the Ready state, the weather data on
  screen is the body the provider returned for the current-conditions request, so the
  name line \<^verbatim>\<open>weatherData.name\<close> shows the provider's name; the typed text only went into the
  query.
\<close>

theorem search_shows_provider_name:
  assumes "\<not> missing (API_KEY env)"
    and "trim_js (inputCity (state r)) \<noteq> []"
    and "renderContent (state (handleSearch env r)) = Ready shown daily warning"
  shows "axios_get env WEATHER_API_URL
           (with_credential (API_KEY env) [(''q'', JStr (trim_js (inputCity (state r))))]) = Inr shown
       \<and> cityName (weatherData (state (handleSearch env r))) = cityName shown"
proof -
  let ?q = "[(''q'', JStr (trim_js (inputCity (state r))))]"
  let ?r2 = "setInputCity [] (snd (fetchData_start env (refreshing (state r)) ?q r))"
  have hs: "handleSearch env r = fetchData_settle env ?q ?r2"
    using assms(1,2) by (simp add: handleSearch_def fetchData_start_def Let_def)
  obtain thrown r' where tb: "try_block env ?q ?r2 = (thrown, r')"
    by (cases "try_block env ?q ?r2")
  show ?thesis
  proof (cases thrown)
    case (Some e)
    with tb assms(3) show ?thesis
      by (simp add: hs settle_state renderContent_def split: if_splits)
  next
    case None
    with tb try_block_cases obtain weather and forecast :: json and daily' where
      w: "axios_get env WEATHER_API_URL (with_credential (API_KEY env) ?q) = Inr weather"
      and r': "r' = setForecastData (JArr daily') (setWeatherData weather
             (issue FORECAST_API_URL (with_credential (API_KEY env) ?q) ?r2))"
      by blast
    from None tb r' have "weatherData (state (handleSearch env r)) = weather"
      by (simp add: hs settle_state setters)
    moreover from assms(3) have "weatherData (state (handleSearch env r)) = shown"
      by (simp add: renderContent_def split: if_splits option.splits)
    ultimately show ?thesis using w by simp
  qed
qed

theorem search_shows_provider_name_witness:
  "\<not> missing (API_KEY (device (Some ''key'') provider ''granted''))
   \<and> trim_js (inputCity (state (setInputCity '' colombo'' initial_Run))) = ''colombo''
   \<and> cityName (weatherData (state (handleSearch (device (Some ''key'') provider ''granted'')
        (setInputCity '' colombo'' initial_Run)))) = Inr (Some (JStr ''Colombo''))"
proof -
  let ?env = "device (Some ''key'') provider ''granted''"
  let ?r = "setInputCity '' colombo'' initial_Run"
  have key: "\<not> missing (API_KEY ?env)"
    by (simp add: device_def missing_def)
  have typed: "trim_js (inputCity (state ?r)) = ''colombo''"
    unfolding setters state_update by code_simp
  then have nonblank: "trim_js (inputCity (state ?r)) \<noteq> []"
    by simp
  have shown: "renderContent (state (handleSearch ?env ?r))
      = Ready colombo_weather
          (JArr [forecast_item ''2024-05-01 12:00:00'', forecast_item ''2024-05-02 12:00:00'']) None"
    using typed
    by (simp add: handleSearch_def fetchData_start_def fetchData_settle_def try_block_def
        Let_def device_def missing_def provider_def WEATHER_API_URL_def FORECAST_API_URL_def
        colombo_forecast_def colombo_weather_def forecast_item_def noon_filter_def
        setters renderContent_def truthy_message_def)
  from search_shows_provider_name [OF key nonblank shown] key typed
  show ?thesis by (simp add: colombo_weather_def)
qed

subsection \<open>The permission advisory\<close>

lemma fetchData_success:
  assumes "\<not> missing (API_KEY env)"
    and "axios_get env WEATHER_API_URL (with_credential (API_KEY env) params) = Inr weather"
    and "axios_get env FORECAST_API_URL (with_credential (API_KEY env) params) = Inr forecast"
    and "dailyForecasts forecast = Inr daily"
  shows "state (fetchData env seen params r) =
           (state r)\<lparr>weatherData := weather, forecastData := JArr daily, loading := False,
                     error := None, refreshing := False\<rparr>"
    and "calls (fetchData env seen params r) =
           calls r @ [(WEATHER_API_URL, with_credential (API_KEY env) params),
                      (FORECAST_API_URL, with_credential (API_KEY env) params)]"
  using assms
  by (simp_all add: fetchData_def fetchData_start_def fetchData_settle_def try_block_def Let_def setters)

lemma trace_try_block: "\<exists>ss. trace (snd (try_block env params r)) = trace r @ ss"
  by (simp add: try_block_def Let_def setters split: sum.splits)

lemma trace_fetchData_settle: "\<exists>ss. trace (fetchData_settle env params r) = trace r @ ss"
proof -
  obtain ss where ss: "trace (snd (try_block env params r)) = trace r @ ss"
    using trace_try_block by blast
  obtain thrown r' where tb: "try_block env params r = (thrown, r')"
    by (cases "try_block env params r")
  with ss show ?thesis
    by (cases thrown) (simp_all add: fetchData_settle_def Let_def catch_block_def setters)
qed

lemma trace_fetchData: "\<exists>ss. trace (fetchData env seen params r) = trace r @ ss"
proof (cases "missing (API_KEY env)")
  case True
  then show ?thesis by (simp add: fetchData_missing setters)
next
  case False
  obtain ss where "trace (fetchData_settle env params (snd (fetchData_start env seen params r)))
      = trace (snd (fetchData_start env seen params r)) @ ss"
    using trace_fetchData_settle by blast
  with False show ?thesis
    by (simp add: fetchData_def fetchData_start_def Let_def setters)
qed

text \<open>
  C4 against the code. Permission is denied, a credential is configured, both calls
  succeed and the current-conditions body is truthy. \<^verbatim>\<open>loadInitialWeather\<close> sets the advisory
  (it is the \<^verbatim>\<open>error\<close> of the first new state of the trace) and calls \<^verbatim>\<open>fetchData\<close> with the
  fallback query \<^verbatim>\<open>{ q: 'Colombo' }\<close>; \<^verbatim>\<open>fetchData\<close> then runs \<^verbatim>\<open>setError(null)\<close>, so the attempt
  ends in the Ready state with no warning: \<^verbatim>\<open>error\<close> is \<^verbatim>\<open>null\<close>.
\<close>

theorem permission_warning_dropped:
  assumes "requestForegroundPermissionsAsync env = Inr status" and "status \<noteq> ''granted''"
    and "\<not> missing (API_KEY env)"
    and "axios_get env WEATHER_API_URL (with_credential (API_KEY env) [(''q'', JStr ''Colombo'')])
           = Inr weather"
    and "truthy weather"
    and "axios_get env FORECAST_API_URL (with_credential (API_KEY env) [(''q'', JStr ''Colombo'')])
           = Inr forecast"
    and "dailyForecasts forecast = Inr daily"
  shows "\<exists>r'. loadInitialWeather env r = Inr r'
           \<and> calls r' = calls r @
                 [(WEATHER_API_URL, with_credential (API_KEY env) [(''q'', JStr ''Colombo'')]),
                  (FORECAST_API_URL, with_credential (API_KEY env) [(''q'', JStr ''Colombo'')])]
           \<and> error (trace r' ! length (trace r))
                 = Some ''Permission denied. Showing weather for Colombo.''
           \<and> error (state r') = None
           \<and> renderContent (state r') = Ready weather (JArr daily) None"
proof -
  let ?r1 = "setError (Some ''Permission denied. Showing weather for Colombo.'') r"
  let ?r' = "fetchData env False [(''q'', JStr ''Colombo'')] ?r1"
  have run: "loadInitialWeather env r = Inr ?r'"
    using assms(1,2) by (simp add: loadInitialWeather_def)
  obtain ss where "trace ?r' = trace ?r1 @ ss"
    using trace_fetchData by blast
  then have advisory: "error (trace ?r' ! length (trace r))
      = Some ''Permission denied. Showing weather for Colombo.''"
    by (simp add: setters nth_append)
  from assms(3-7) have "calls ?r' = calls r @
                 [(WEATHER_API_URL, with_credential (API_KEY env) [(''q'', JStr ''Colombo'')]),
                  (FORECAST_API_URL, with_credential (API_KEY env) [(''q'', JStr ''Colombo'')])]"
    and "error (state ?r') = None"
    and "renderContent (state ?r') = Ready weather (JArr daily) None"
    by (simp_all add: fetchData_success renderContent_def truthy_message_def setters)
  with run advisory show ?thesis by blast
qed

theorem permission_warning_dropped_witness:
  "requestForegroundPermissionsAsync (device (Some ''key'') provider ''denied'') = Inr ''denied''
   \<and> ''denied'' \<noteq> ''granted''
   \<and> \<not> missing (API_KEY (device (Some ''key'') provider ''denied''))
   \<and> truthy colombo_weather
   \<and> (\<exists>r'. loadInitialWeather (device (Some ''key'') provider ''denied'') initial_Run = Inr r'
         \<and> calls r' =
              [(WEATHER_API_URL,
                [(''q'', JStr ''Colombo''), (''appid'', JStr ''key''), (''units'', JStr ''metric'')]),
               (FORECAST_API_URL,
                [(''q'', JStr ''Colombo''), (''appid'', JStr ''key''), (''units'', JStr ''metric'')])]
         \<and> error (trace r' ! 0) = Some ''Permission denied. Showing weather for Colombo.''
         \<and> error (state r') = None
         \<and> renderContent (state r') = Ready colombo_weather
              (JArr [forecast_item ''2024-05-01 12:00:00'', forecast_item ''2024-05-02 12:00:00''])
              None)"
proof -
  let ?env = "device (Some ''key'') provider ''denied''"
  have status: "requestForegroundPermissionsAsync ?env = Inr ''denied''"
    by (simp add: device_def)
  have denied: "''denied'' \<noteq> ''granted''" by simp
  have key: "\<not> missing (API_KEY ?env)" by (simp add: device_def missing_def)
  have w: "axios_get ?env WEATHER_API_URL (with_credential (API_KEY ?env) [(''q'', JStr ''Colombo'')])
      = Inr colombo_weather"
    by (simp add: device_def provider_def)
  have t: "truthy colombo_weather" by (simp add: colombo_weather_def)
  have f: "axios_get ?env FORECAST_API_URL (with_credential (API_KEY ?env) [(''q'', JStr ''Colombo'')])
      = Inr colombo_forecast"
    by (simp add: device_def provider_def WEATHER_API_URL_def FORECAST_API_URL_def)
  have d: "dailyForecasts colombo_forecast
      = Inr [forecast_item ''2024-05-01 12:00:00'', forecast_item ''2024-05-02 12:00:00'']"
    by (simp add: colombo_forecast_def forecast_item_def noon_filter_def)
  from permission_warning_dropped [OF status denied key w t f d, of initial_Run] status key t
  show ?thesis
    by (simp add: initial_Run_def with_credential_def device_def)
qed

subsection \<open>Exceptions\<close>



lemma try_block_throws_iff:
  "(\<exists>e r'. try_block env params r = (Some e, r')) \<longleftrightarrow>
   rejects env WEATHER_API_URL params \<or> rejects env FORECAST_API_URL params \<or> unfilterable env params"
  by (auto simp: try_block_def rejects_def unfilterable_def Let_def split: sum.splits)




subsection \<open>The lookup tables\<close>

lemma getWeatherIcon_own:
  "map_of icons iconCode = Some glyph \<Longrightarrow> getWeatherIcon iconCode = Own glyph"
  by (auto simp: getWeatherIcon_def property_def icons_def Let_def split: if_splits)

lemma getWeatherIcon_fallback:
  "map_of icons iconCode = None \<Longrightarrow> iconCode \<notin> set Object_prototype \<Longrightarrow>
   getWeatherIcon iconCode = Own [CHR 0xF0, CHR 0x9F, CHR 0x8C, CHR 0xA4, CHR 0xEF, CHR 0xB8, CHR 0x8F]"
  by (simp add: getWeatherIcon_def property_def Let_def)

lemma getAdvancedGradient_own:
  "map_of gradients weatherMain = Some p \<Longrightarrow>
   getAdvancedGradient weatherMain isNight = Inr (Own (if isNight then night p else day p))"
  by (simp add: getAdvancedGradient_def property_def)

lemma getAdvancedGradient_fallback:
  "map_of gradients weatherMain = None \<Longrightarrow> weatherMain \<notin> set Object_prototype \<Longrightarrow>
   getAdvancedGradient weatherMain isNight = getAdvancedGradient ''Clear'' isNight"
  by (simp add: getAdvancedGradient_def property_def gradients_def)

text \<open>
  C6 against the code. The key \<^verbatim>\<open>constructor\<close> is in neither table, and neither lookup gives
  its fallback: \<^verbatim>\<open>icons['constructor']\<close> is the function inherited from \<^verbatim>\<open>Object.prototype\<close>, which
  is truthy, so \<^verbatim>\<open>getWeatherIcon\<close> returns it; \<^verbatim>\<open>getAdvancedGradient\<close> takes it for the palette and
  returns its \<^verbatim>\<open>day\<close> property, \<^verbatim>\<open>undefined\<close>, not the Clear palette.
\<close>

theorem inherited_key_is_no_fallback:
  "map_of icons ''constructor'' = None
   \<and> getWeatherIcon ''constructor'' = Inherited ''constructor''
   \<and> getWeatherIcon ''constructor''
        \<noteq> Own [CHR 0xF0, CHR 0x9F, CHR 0x8C, CHR 0xA4, CHR 0xEF, CHR 0xB8, CHR 0x8F]
   \<and> map_of gradients ''constructor'' = None
   \<and> getAdvancedGradient ''constructor'' False = Inr Undefined
   \<and> getAdvancedGradient ''constructor'' False \<noteq> getAdvancedGradient ''Clear'' False"
  by (simp add: getWeatherIcon_def getAdvancedGradient_def property_def icons_def gradients_def
      Object_prototype_def Let_def)

subsection \<open>The views of an attempt\<close>

lemma views_since_append:
  "trace r' = trace r @ ss \<Longrightarrow>
   views_since r r' = remdups_adj (map (\<lambda>s. phase (renderContent s)) (state r # ss))"
  by (simp add: views_since_def)

lemma loading_view [simp]: "loading s \<Longrightarrow> phase (renderContent s) = ShowsLoading"
  by (simp add: renderContent_def)

text \<open>The rest of \<^verbatim>\<open>fetchData\<close>, entered while loading and with no error set.\<close>

lemma settle_views:
  assumes "loading (state r)" and "error (state r) = None" and "truthy_bodies env"
  shows "\<exists>ss f. trace (fetchData_settle env params r) = trace r @ ss
      \<and> remdups_adj (ShowsLoading # map (\<lambda>s. phase (renderContent s)) ss) = [ShowsLoading, f]
      \<and> f = phase (renderContent (state (fetchData_settle env params r)))
      \<and> (f = ShowsReady \<or> f = ShowsFailed)"
  using assms
  apply (simp add: fetchData_settle_def try_block_def Let_def catch_block_def setters truthy_bodies_def
      split: sum.splits)
  apply (auto simp: renderContent_def truthy_message_def)
  done


lemma fetch_views:
  assumes "\<not> missing (API_KEY env)" and "truthy_bodies env"
    and "phase (renderContent (state r)) \<noteq> ShowsLoading"
  shows "\<exists>ss f. trace (fetchData env False params r) = trace r @ ss
      \<and> remdups_adj (map (\<lambda>s. phase (renderContent s)) (state r # ss))
          = [phase (renderContent (state r)), ShowsLoading, f]
      \<and> f = phase (renderContent (state (fetchData env False params r)))
      \<and> (f = ShowsReady \<or> f = ShowsFailed)"
proof -
  let ?r1 = "issue WEATHER_API_URL (with_credential (API_KEY env) params)
               (setError None (setLoading True r))"
  let ?pre = "[(state r)\<lparr>loading := True\<rparr>, (state r)\<lparr>loading := True, error := None\<rparr>]"
  have fd: "fetchData env False params r = fetchData_settle env params ?r1"
    using assms(1) by (simp add: fetchData_def fetchData_start_def Let_def)
  have "loading (state ?r1)" and "error (state ?r1) = None"
    by (simp_all add: setters)
  from settle_views [OF this assms(2), of params] obtain ss f where
    ss: "trace (fetchData_settle env params ?r1) = trace ?r1 @ ss"
    and v: "remdups_adj (ShowsLoading # map (\<lambda>s. phase (renderContent s)) ss) = [ShowsLoading, f]"
    and f: "f = phase (renderContent (state (fetchData_settle env params ?r1)))"
      "f = ShowsReady \<or> f = ShowsFailed"
    by blast
  have 1: "trace (fetchData env False params r) = trace r @ (?pre @ ss)"
    using ss by (simp add: fd setters)
  have 2: "remdups_adj (map (\<lambda>s. phase (renderContent s)) (state r # (?pre @ ss)))
      = [phase (renderContent (state r)), ShowsLoading, f]"
    using v assms(3) by simp
  have 3: "f = phase (renderContent (state (fetchData env False params r)))"
    using f(1) by (simp add: fd)
  from 1 2 3 f(2) show ?thesis
    by (intro exI [of _ "?pre @ ss"] exI [of _ f] conjI)
qed

lemma search_views:
  assumes "\<not> missing (API_KEY env)" and "truthy_bodies env"
    and "phase (renderContent (state r)) \<noteq> ShowsLoading"
    and "trim_js (inputCity (state r)) \<noteq> []" and "\<not> refreshing (state r)"
  shows "views_since r (handleSearch env r)
           = [phase (renderContent (state r)), ShowsLoading,
              phase (renderContent (state (handleSearch env r)))]
      \<and> (phase (renderContent (state (handleSearch env r))) = ShowsReady
         \<or> phase (renderContent (state (handleSearch env r))) = ShowsFailed)"
proof -
  let ?q = "[(''q'', JStr (trim_js (inputCity (state r))))]"
  let ?r2 = "setInputCity [] (issue WEATHER_API_URL (with_credential (API_KEY env) ?q)
               (setError None (setLoading True r)))"
  let ?pre = "[(state r)\<lparr>loading := True\<rparr>, (state r)\<lparr>loading := True, error := None\<rparr>,
          (state r)\<lparr>loading := True, error := None, inputCity := []\<rparr>]"
  have hs: "handleSearch env r = fetchData_settle env ?q ?r2"
    using assms(1,4,5) by (simp add: handleSearch_def fetchData_start_def Let_def)
  have "loading (state ?r2)" and "error (state ?r2) = None"
    by (simp_all add: setters)
  from settle_views [OF this assms(2), of ?q] obtain ss f where
    ss: "trace (fetchData_settle env ?q ?r2) = trace ?r2 @ ss"
    and v: "remdups_adj (ShowsLoading # map (\<lambda>s. phase (renderContent s)) ss) = [ShowsLoading, f]"
    and f: "f = phase (renderContent (state (fetchData_settle env ?q ?r2)))"
      "f = ShowsReady \<or> f = ShowsFailed"
    by blast
  have "trace (handleSearch env r) = trace r @ (?pre @ ss)"
    using ss by (simp add: hs setters)
  then have "views_since r (handleSearch env r)
      = remdups_adj (map (\<lambda>s. phase (renderContent s)) (state r # (?pre @ ss)))"
    by (rule views_since_append)
  also have "\<dots> = [phase (renderContent (state r)), ShowsLoading, f]"
    using v assms(3) by simp
  finally show ?thesis
    using f by (simp add: hs)
qed

lemma same_view_refreshing [simp]:
  "renderContent (s\<lparr>refreshing := b\<rparr>) = renderContent s"
  by (simp add: renderContent_def)

lemma same_phase_advisory:
  "phase (renderContent s) = ShowsReady \<or> phase (renderContent s) = ShowsFailed \<Longrightarrow>
   phase (renderContent (s\<lparr>error := Some ''Permission denied. Showing weather for Colombo.''\<rparr>))
     = phase (renderContent s)"
  by (auto simp: renderContent_def truthy_message_def split: if_splits option.splits)

text \<open>A fetch that follows setter calls which left the view as it was.\<close>

lemma fetch_views_after:
  assumes "\<not> missing (API_KEY env)" and "truthy_bodies env"
    and "phase (renderContent (state r)) \<noteq> ShowsLoading"
    and "trace r0 = trace r @ pre"
    and "\<forall>s \<in> set pre. phase (renderContent s) = phase (renderContent (state r))"
    and "phase (renderContent (state r0)) = phase (renderContent (state r))"
  shows "views_since r (fetchData env False params r0)
           = [phase (renderContent (state r)), ShowsLoading,
              phase (renderContent (state (fetchData env False params r0)))]
      \<and> (phase (renderContent (state (fetchData env False params r0))) = ShowsReady
         \<or> phase (renderContent (state (fetchData env False params r0))) = ShowsFailed)"
proof -
  let ?ph = "\<lambda>s. phase (renderContent s)"
  from assms(3,6) have "?ph (state r0) \<noteq> ShowsLoading" by simp
  from fetch_views [OF assms(1,2) this, of params] obtain ss f where
    1: "trace (fetchData env False params r0) = trace r0 @ ss"
    and 2: "remdups_adj (map ?ph (state r0 # ss)) = [?ph (state r0), ShowsLoading, f]"
    and 3: "f = ?ph (state (fetchData env False params r0))" "f = ShowsReady \<or> f = ShowsFailed"
    by blast
  have same: "remdups_adj (?ph (state r) # map ?ph pre @ xs) = remdups_adj (?ph (state r) # xs)" for xs
    using assms(5) by (induction pre) auto
  have "trace (fetchData env False params r0) = trace r @ (pre @ ss)"
    using 1 assms(4) by simp
  then have "views_since r (fetchData env False params r0)
      = remdups_adj (map ?ph (state r # (pre @ ss)))"
    by (rule views_since_append)
  also have "\<dots> = remdups_adj (?ph (state r) # map ?ph ss)"
    using same by simp
  also have "\<dots> = [?ph (state r), ShowsLoading, f]"
    using 2 assms(6) by simp
  finally show ?thesis using 3 by simp
qed

lemma refresh_views:
  assumes "\<not> missing (API_KEY env)" and "truthy_bodies env"
    and start: "phase (renderContent (state r)) = ShowsReady \<or> phase (renderContent (state r)) = ShowsFailed"
    and "onRefresh env r = Inr r'"
  shows "views_since r r' = [phase (renderContent (state r)), ShowsLoading, phase (renderContent (state r'))]
      \<and> (phase (renderContent (state r')) = ShowsReady \<or> phase (renderContent (state r')) = ShowsFailed)"
proof -
  from start have p: "phase (renderContent (state r)) \<noteq> ShowsLoading" by auto
  let ?r1 = "setRefreshing True r"
  let ?r2 = "setError (Some ''Permission denied. Showing weather for Colombo.'') ?r1"
  have granted: ?thesis if "r' = fetchData env False params ?r1" for params
    unfolding that
    by (rule fetch_views_after [OF assms(1,2) p, of _ "[(state r)\<lparr>refreshing := True\<rparr>]"])
      (simp_all add: setters)
  have denied: ?thesis if "r' = fetchData env False params ?r2" for params
    unfolding that
    by (rule fetch_views_after [OF assms(1,2) p,
          of _ "[(state r)\<lparr>refreshing := True\<rparr>,
                 (state r)\<lparr>refreshing := True,
                    error := Some ''Permission denied. Showing weather for Colombo.''\<rparr>]"])
      (use start same_phase_advisory [of "(state r)\<lparr>refreshing := True\<rparr>"] in \<open>simp_all add: setters\<close>)
  from assms(4) granted denied show ?thesis
    by (auto simp: onRefresh_def loadInitialWeather_def split: sum.splits if_splits prod.splits)
qed


text \<open>
  A render reads only the two data cells; the other cells do not matter to it.
\<close>

lemma is_WeatherData_truthy: "is_WeatherData body \<Longrightarrow> truthy body"
  by (cases body) (simp_all add: is_WeatherData_def has_string_def)

lemma well_formed_truthy: "well_formed_bodies env \<Longrightarrow> truthy_bodies env"
  by (auto simp: well_formed_bodies_def truthy_bodies_def is_WeatherData_truthy)

lemma renderable_cells [simp]:
  "renderable (s\<lparr>loading := b\<rparr>) = renderable s"
  "renderable (s\<lparr>error := e\<rparr>) = renderable s"
  "renderable (s\<lparr>refreshing := b\<rparr>) = renderable s"
  "renderable (s\<lparr>inputCity := v\<rparr>) = renderable s"
  by (simp_all add: renderable_def)

lemma renderable_weather:
  "renderable s \<Longrightarrow> is_WeatherData body \<Longrightarrow> renderable (s\<lparr>weatherData := body\<rparr>)"
  by (simp add: renderable_def)

lemma renderable_forecast:
  "renderable s \<Longrightarrow> list_all is_shown_ForecastItem items \<Longrightarrow>
   renderable (s\<lparr>forecastData := JArr items\<rparr>)"
  by (simp add: renderable_def)

lemma renderable_null [simp]:
  "renderable s \<Longrightarrow> renderable (s\<lparr>weatherData := JNull\<rparr>)"
  "renderable s \<Longrightarrow> renderable (s\<lparr>forecastData := JNull\<rparr>)"
  by (simp_all add: renderable_def)

lemma daily_shown:
  assumes "is_forecast_body forecast" and "dailyForecasts forecast = Inr daily"
  shows "list_all is_shown_ForecastItem daily"
proof -
  from assms obtain props items where
    "forecast = JObj props" "map_of props ''list'' = Some (JArr items)"
    "list_all is_shown_ForecastItem items" "noon_filter items = Inr daily"
    by (cases forecast) (auto simp: is_forecast_body_def split: option.splits json.splits)
  then have "daily = filter (\<lambda>x. noon_sample x = Inr True) items"
    by (simp add: noon_filter_def filter_js_result)
  with \<open>list_all is_shown_ForecastItem items\<close> show ?thesis
    by (simp add: list_all_iff)
qed

lemma settle_renderable:
  assumes "renderable (state r)" and "well_formed_bodies env"
  shows "list_all renderable (drop (length (trace r)) (trace (fetchData_settle env params r)))"
proof -
  have w: "is_WeatherData body"
    if "axios_get env WEATHER_API_URL (with_credential (API_KEY env) params) = Inr body" for body
    using that assms(2) by (auto simp: well_formed_bodies_def)
  have f: "list_all is_shown_ForecastItem daily"
    if "axios_get env FORECAST_API_URL (with_credential (API_KEY env) params) = Inr body"
      and "dailyForecasts body = Inr daily" for body daily
    using that assms(2) daily_shown unfolding well_formed_bodies_def by blast
  show ?thesis
    using assms(1) w f
    by (auto simp: fetchData_settle_def try_block_def Let_def catch_block_def setters
        renderable_weather renderable_forecast split: sum.splits)
qed


lemma fetch_renderable:
  assumes "renderable (state r)" and "well_formed_bodies env"
  shows "list_all renderable (drop (length (trace r)) (trace (fetchData env seen params r)))"
proof (cases "missing (API_KEY env)")
  case True
  with assms(1) show ?thesis by (simp add: fetchData_missing setters)
next
  case False
  let ?r1 = "snd (fetchData_start env seen params r)"
  have fd: "fetchData env seen params r = fetchData_settle env params ?r1"
    using False by (simp add: fetchData_def fetchData_start_def Let_def)
  have "\<exists>pre. trace ?r1 = trace r @ pre \<and> list_all renderable pre \<and> renderable (state ?r1)"
    using False assms(1) by (cases seen) (simp_all add: fetchData_start_def Let_def setters)
  then obtain pre where
    pre: "trace ?r1 = trace r @ pre" "list_all renderable pre" "renderable (state ?r1)"
    by blast
  obtain ss where ss: "trace (fetchData_settle env params ?r1) = trace ?r1 @ ss"
    using trace_fetchData_settle by blast
  from settle_renderable [OF pre(3) assms(2), of params] ss have "list_all renderable ss"
    by simp
  with pre ss show ?thesis by (simp add: fd)
qed

lemma search_renderable:
  assumes "renderable (state r)" and "well_formed_bodies env"
  shows "list_all renderable (drop (length (trace r)) (trace (handleSearch env r)))"
proof (cases "trim_js (inputCity (state r)) \<noteq> [] \<and> \<not> missing (API_KEY env)")
  case False
  with assms(1) show ?thesis
    by (auto simp: handleSearch_def fetchData_start_def setters)
next
  case True
  let ?q = "[(''q'', JStr (trim_js (inputCity (state r))))]"
  let ?r2 = "setInputCity [] (snd (fetchData_start env (refreshing (state r)) ?q r))"
  have hs: "handleSearch env r = fetchData_settle env ?q ?r2"
    using True by (simp add: handleSearch_def fetchData_start_def Let_def)
  have "\<exists>pre. trace ?r2 = trace r @ pre \<and> list_all renderable pre \<and> renderable (state ?r2)"
    using True assms(1)
    by (cases "refreshing (state r)") (simp_all add: fetchData_start_def Let_def setters)
  then obtain pre where
    pre: "trace ?r2 = trace r @ pre" "list_all renderable pre" "renderable (state ?r2)"
    by blast
  obtain ss where ss: "trace (fetchData_settle env ?q ?r2) = trace ?r2 @ ss"
    using trace_fetchData_settle by blast
  from settle_renderable [OF pre(3) assms(2), of ?q] ss have "list_all renderable ss"
    by simp
  with pre ss show ?thesis by (simp add: hs)
qed

lemma fetch_renderable_after:
  assumes "renderable (state r0)" and "well_formed_bodies env"
    and "trace r0 = trace r @ pre" and "list_all renderable pre"
  shows "list_all renderable (drop (length (trace r)) (trace (fetchData env seen params r0)))"
proof -
  obtain ss where ss: "trace (fetchData env seen params r0) = trace r0 @ ss"
    using trace_fetchData by blast
  from fetch_renderable [OF assms(1,2), of seen params] ss have "list_all renderable ss"
    by simp
  with assms(3,4) ss show ?thesis by simp
qed

lemma refresh_renderable:
  assumes "renderable (state r)" and "well_formed_bodies env" and "onRefresh env r = Inr r'"
  shows "list_all renderable (drop (length (trace r)) (trace r'))"
proof -
  let ?r1 = "setRefreshing True r"
  let ?r2 = "setError (Some ''Permission denied. Showing weather for Colombo.'') ?r1"
  have granted: ?thesis if "r' = fetchData env False params ?r1" for params
    unfolding that
    by (rule fetch_renderable_after [OF _ assms(2), of _ _ "[(state r)\<lparr>refreshing := True\<rparr>]"])
      (use assms(1) in \<open>simp_all add: setters\<close>)
  have denied: ?thesis if "r' = fetchData env False params ?r2" for params
    unfolding that
    by (rule fetch_renderable_after [OF _ assms(2),
          of _ _ "[(state r)\<lparr>refreshing := True\<rparr>,
                 (state r)\<lparr>refreshing := True,
                    error := Some ''Permission denied. Showing weather for Colombo.''\<rparr>]"])
      (use assms(1) in \<open>simp_all add: setters\<close>)
  from assms(3) granted denied show ?thesis
    by (auto simp: onRefresh_def loadInitialWeather_def split: sum.splits if_splits prod.splits)
qed

text \<open>
  C7, as the code has it. Let a credential be configured, let every body the provider
  sends be well formed, and let the screen show the Ready or the Failed view of a state
  it can render. Then a search with a non-blank input, submitted while no refresh is
  under way, and a manual refresh whose permission and position requests resolve, each
  take the screen from that view to Loading and from Loading to the view the attempt
  ends with, which is Ready or Failed; no other view comes in between, and every state
  on the way holds all the fields its render reads, so no render throws.
\<close>

theorem attempt_shows_loading_first:
  assumes "\<not> missing (API_KEY env)" and "well_formed_bodies env" and "renderable (state r)"
    and "phase (renderContent (state r)) = ShowsReady \<or> phase (renderContent (state r)) = ShowsFailed"
  shows "(trim_js (inputCity (state r)) \<noteq> [] \<and> \<not> refreshing (state r) \<longrightarrow>
            views_since r (handleSearch env r)
              = [phase (renderContent (state r)), ShowsLoading,
                 phase (renderContent (state (handleSearch env r)))]
          \<and> (phase (renderContent (state (handleSearch env r))) = ShowsReady
             \<or> phase (renderContent (state (handleSearch env r))) = ShowsFailed)
          \<and> list_all renderable (drop (length (trace r)) (trace (handleSearch env r))))
       \<and> (\<forall>r'. onRefresh env r = Inr r' \<longrightarrow>
            views_since r r'
              = [phase (renderContent (state r)), ShowsLoading, phase (renderContent (state r'))]
          \<and> (phase (renderContent (state r')) = ShowsReady
             \<or> phase (renderContent (state r')) = ShowsFailed)
          \<and> list_all renderable (drop (length (trace r)) (trace r')))"
proof -
  from assms(4) have "phase (renderContent (state r)) \<noteq> ShowsLoading" by auto
  moreover have "truthy_bodies env"
    using assms(2) by (rule well_formed_truthy)
  ultimately show ?thesis
    using assms search_views [of env r] refresh_views [of env r]
      search_renderable [of r env] refresh_renderable [of r env]
    by blast
qed

lemma handleSearch_success:
  assumes "\<not> missing (API_KEY env)" and "trim_js (inputCity (state r)) = city" and "city \<noteq> []"
    and "axios_get env WEATHER_API_URL (with_credential (API_KEY env) [(''q'', JStr city)]) = Inr weather"
    and "axios_get env FORECAST_API_URL (with_credential (API_KEY env) [(''q'', JStr city)]) = Inr forecast"
    and "dailyForecasts forecast = Inr daily"
  shows "state (handleSearch env r) =
           (state r)\<lparr>weatherData := weather, forecastData := JArr daily, loading := False,
                     error := None, refreshing := False, inputCity := []\<rparr>"
  using assms
  by (simp add: handleSearch_def fetchData_start_def fetchData_settle_def try_block_def Let_def setters)

lemma ready_run_state:
  "state ready_run =
     initial_State\<lparr>weatherData := colombo_weather,
        forecastData := JArr [forecast_item ''2024-05-01 12:00:00'', forecast_item ''2024-05-02 12:00:00''],
        loading := False, error := None, refreshing := False, inputCity := ''Kandy''\<rparr>"
proof -
  let ?env = "device (Some ''key'') provider ''granted''"
  let ?q = "[(''lat'', JNum (6927 / 1000)), (''lon'', JNum (79861 / 1000))]"
  have key: "\<not> missing (API_KEY ?env)" by (simp add: device_def missing_def)
  have w: "axios_get ?env WEATHER_API_URL (with_credential (API_KEY ?env) ?q) = Inr colombo_weather"
    by (simp add: device_def provider_def)
  have f: "axios_get ?env FORECAST_API_URL (with_credential (API_KEY ?env) ?q) = Inr colombo_forecast"
    by (simp add: device_def provider_def WEATHER_API_URL_def FORECAST_API_URL_def)
  have d: "dailyForecasts colombo_forecast
      = Inr [forecast_item ''2024-05-01 12:00:00'', forecast_item ''2024-05-02 12:00:00'']"
    by (simp add: colombo_forecast_def forecast_item_def noon_filter_def)
  show ?thesis
    unfolding ready_run_def
    by (simp add: fetchData_success(1) [OF key w f d] setters initial_Run_def)
qed

lemma trim_Kandy: "trim_js ''Kandy'' = ''Kandy''"
  by code_simp

lemma colombo_weather_well_formed: "is_WeatherData colombo_weather"
  by (simp add: colombo_weather_def is_WeatherData_def has_string_def has_number_def
      first_weather_def shows_gradient_def shows_icon_def getWeatherIcon_def
      getAdvancedGradient_def property_def icons_def gradients_def Let_def)

lemma forecast_item_well_formed: "is_shown_ForecastItem (forecast_item t)"
  by (simp add: forecast_item_def is_shown_ForecastItem_def has_string_def has_number_def
      first_weather_def shows_icon_def getWeatherIcon_def property_def icons_def Let_def)

lemma colombo_forecast_well_formed: "is_forecast_body colombo_forecast"
  by (simp add: colombo_forecast_def is_forecast_body_def forecast_item_well_formed)

lemma provider_well_formed: "well_formed_bodies (device key provider status)"
  by (simp add: well_formed_bodies_def device_def provider_def WEATHER_API_URL_def
      FORECAST_API_URL_def colombo_weather_well_formed colombo_forecast_well_formed)

theorem attempt_shows_loading_first_witness:
  "\<not> missing (API_KEY (device (Some ''key'') provider ''granted''))
   \<and> well_formed_bodies (device (Some ''key'') provider ''granted'')
   \<and> renderable (state ready_run)
   \<and> phase (renderContent (state ready_run)) = ShowsReady
   \<and> trim_js (inputCity (state ready_run)) \<noteq> [] \<and> \<not> refreshing (state ready_run)
   \<and> views_since ready_run (handleSearch (device (Some ''key'') provider ''granted'') ready_run)
       = [ShowsReady, ShowsLoading, ShowsReady]
   \<and> list_all renderable (drop (length (trace ready_run))
        (trace (handleSearch (device (Some ''key'') provider ''granted'') ready_run)))
   \<and> (\<exists>r'. onRefresh (device (Some ''key'') provider ''granted'') ready_run = Inr r'
         \<and> views_since ready_run r' = [ShowsReady, ShowsLoading, ShowsReady]
         \<and> list_all renderable (drop (length (trace ready_run)) (trace r')))"
proof -
  let ?env = "device (Some ''key'') provider ''granted''"
  let ?q = "[(''lat'', JNum (6927 / 1000)), (''lon'', JNum (79861 / 1000))]"
  let ?r' = "fetchData ?env False ?q (setRefreshing True ready_run)"
  have key: "\<not> missing (API_KEY ?env)" by (simp add: device_def missing_def)
  have bodies: "well_formed_bodies ?env" by (rule provider_well_formed)
  have w: "axios_get ?env WEATHER_API_URL params = Inr colombo_weather" for params
    by (simp add: device_def provider_def)
  have f: "axios_get ?env FORECAST_API_URL params = Inr colombo_forecast" for params
    by (simp add: device_def provider_def WEATHER_API_URL_def FORECAST_API_URL_def)
  have d: "dailyForecasts colombo_forecast
      = Inr [forecast_item ''2024-05-01 12:00:00'', forecast_item ''2024-05-02 12:00:00'']"
    by (simp add: colombo_forecast_def forecast_item_def noon_filter_def)
  have truthy: "truthy colombo_weather"
    by (rule is_WeatherData_truthy [OF colombo_weather_well_formed])
  have shown: "renderable (state ready_run)"
    using colombo_weather_well_formed
    by (simp add: ready_run_state renderable_def initial_State_def forecast_item_well_formed)
  have start: "phase (renderContent (state ready_run)) = ShowsReady"
    using truthy by (simp add: ready_run_state renderContent_def initial_State_def)
  have typed: "trim_js (inputCity (state ready_run)) = ''Kandy''"
    by (simp add: ready_run_state trim_Kandy)
  have idle: "\<not> refreshing (state ready_run)"
    by (simp add: ready_run_state)
  have searched: "phase (renderContent (state (handleSearch ?env ready_run))) = ShowsReady"
    using truthy by (simp add: handleSearch_success [OF key typed _ w f d] renderContent_def)
  have refresh: "onRefresh ?env ready_run = Inr ?r'"
    by (simp add: onRefresh_def loadInitialWeather_def device_def)
  have refreshed: "phase (renderContent (state ?r')) = ShowsReady"
    using truthy by (simp add: fetchData_success(1) [OF key w f d] renderContent_def)
  from start have "phase (renderContent (state ready_run)) = ShowsReady
      \<or> phase (renderContent (state ready_run)) = ShowsFailed"
    by simp
  from attempt_shows_loading_first [OF key bodies shown this]
    key bodies shown start typed idle refresh searched refreshed
  show ?thesis by auto
qed

text \<open>
  C7 as stated fails without a credential: mounting leaves the Failed view with the
  message about the API key; a search for \<^verbatim>\<open>Kandy\<close> from there returns at the guard of
  \<^verbatim>\<open>fetchData\<close>, and the screen shows the Failed view throughout, never Loading.
\<close>

theorem no_loading_without_credential:
  "missing (API_KEY (device None provider ''granted''))
   \<and> loadInitialWeather (device None provider ''granted'') initial_Run
       = Inr (fetchData (device None provider ''granted'') False
               [(''lat'', JNum (6927 / 1000)), (''lon'', JNum (79861 / 1000))] initial_Run)
   \<and> phase (renderContent (state no_key_run)) = ShowsFailed
   \<and> trim_js (inputCity (state no_key_run)) = ''Kandy''
   \<and> \<not> refreshing (state no_key_run)
   \<and> views_since no_key_run (handleSearch (device None provider ''granted'') no_key_run) = [ShowsFailed]"
proof -
  let ?env = "device None provider ''granted''"
  have m: "missing (API_KEY ?env)" by (simp add: device_def missing_def)
  have st: "state no_key_run =
     initial_State\<lparr>error := Some ''API Key is missing. Please check your .env file and restart the app.'',
        loading := False, inputCity := ''Kandy''\<rparr>"
    unfolding no_key_run_def by (simp add: fetchData_missing [OF m] setters initial_Run_def)
  have hs: "handleSearch ?env no_key_run
      = setInputCity [] (setLoading False
          (setError (Some ''API Key is missing. Please check your .env file and restart the app.'') no_key_run))"
    using m by (simp add: handleSearch_def fetchData_start_def st trim_Kandy)
  have "views_since no_key_run (handleSearch ?env no_key_run) = [ShowsFailed]"
    unfolding hs views_since_def
    by (simp add: setters st renderContent_def truthy_message_def initial_State_def)
  moreover have "loadInitialWeather ?env initial_Run
       = Inr (fetchData ?env False [(''lat'', JNum (6927 / 1000)), (''lon'', JNum (79861 / 1000))] initial_Run)"
    by (simp add: loadInitialWeather_def device_def)
  ultimately show ?thesis
    using m by (simp add: st trim_Kandy renderContent_def truthy_message_def initial_State_def)
qed

end
